theory Spec2Isabelle
  imports Complex_Main
begin

section \<open>Numbers and errors\<close>

text \<open>
  The simulation core of \<^verbatim>\<open>app.py\<close> computes with Python numbers. They are modelled
  as mathematical reals: every statement below is about the arithmetic the code writes
  down, not about the rounding of IEEE doubles. The literal \<^verbatim>\<open>0.667\<close> is the real
  \<open>667 / 1000\<close>.

  Python's true division raises \<^verbatim>\<open>ZeroDivisionError\<close> on a zero divisor; the functions
  that divide by \<^verbatim>\<open>property_price\<close> without a guard return the error as a value.

  The power \<^verbatim>\<open>x ** (1/12)\<close> is \<open>x powr (1/12)\<close> for \<open>0 \<le> x\<close>. For a negative
  base Python yields a complex number: ordering it against \<^verbatim>\<open>0\<close> raises
  \<^verbatim>\<open>TypeError\<close>, and where nothing compares it the result is a list of complex numbers,
  which the real-valued model reports as \<open>ComplexValue\<close>.
\<close>

datatype py_error = ZeroDivisionError | TypeError | ComplexValue

section \<open>Minimum required payments\<close>

text \<open>The dictionary returned by \<^verbatim>\<open>calculate_minimum_payments\<close>.\<close>

record min_payments =
  monthly_interest :: real
  monthly_min_amort :: real
  total_min_payment :: real

definition calculate_minimum_payments :: "real \<Rightarrow> real \<Rightarrow> real \<Rightarrow> py_error + min_payments" where
  "calculate_minimum_payments property_price down_payment interest_rate =
     (let loan = property_price - down_payment;
          monthly_interest' = (loan * interest_rate) / 12
      in if property_price = 0 then Inl ZeroDivisionError
         else
           let monthly_min_amort' =
                 (if (1 - down_payment / property_price) > 0.667
                  then (let min_amort_per_year = (loan - property_price * 0.667) / 15
                        in min_amort_per_year / 12)
                  else 0)
           in Inr \<lparr>monthly_interest = monthly_interest',
                   monthly_min_amort = monthly_min_amort',
                   total_min_payment = monthly_interest' + monthly_min_amort'\<rparr>)"

section \<open>Monthly payment breakdown\<close>

text \<open>
  The local \<^verbatim>\<open>min_amort_per_year\<close> of \<^verbatim>\<open>calculate_monthly_payments\<close>; the division
  is only evaluated by callers that have excluded a zero price.
\<close>

definition monthly_payments_min_amort_per_year :: "real \<Rightarrow> real \<Rightarrow> real" where
  "monthly_payments_min_amort_per_year property_price down_payment =
     (let loan = property_price - down_payment
      in if (1 - down_payment / property_price) > 0.667
         then (loan - property_price * 0.667) / 15
         else 0)"

text \<open>The dictionary returned by \<^verbatim>\<open>calculate_monthly_payments\<close>.\<close>

record payments =
  Interest :: real
  Amortization :: real
  Investment :: real
  Is_Sufficient :: bool

definition calculate_monthly_payments ::
  "real \<Rightarrow> real \<Rightarrow> real \<Rightarrow> real \<Rightarrow> int \<Rightarrow> bool \<Rightarrow> py_error + payments" where
  "calculate_monthly_payments property_price down_payment monthly_budget
       interest_rate amort_years is_hybrid =
     (let loan = property_price - down_payment
      in if property_price = 0 then Inl ZeroDivisionError
         else
           let min_amort_per_year = monthly_payments_min_amort_per_year property_price down_payment;
               monthly_interest' = (loan * interest_rate) / 12;
               monthly_min_amort' = min_amort_per_year / 12;
               is_sufficient = (monthly_budget \<ge> monthly_interest' + monthly_min_amort')
           in if \<not> is_sufficient then
                Inr \<lparr>Interest = monthly_interest',
                     Amortization = (if monthly_budget > monthly_interest'
                                     then monthly_budget - monthly_interest' else 0),
                     Investment = 0,
                     Is_Sufficient = is_sufficient\<rparr>
              else if is_hybrid then
                Inr \<lparr>Interest = monthly_interest',
                     Amortization = monthly_min_amort',
                     Investment = monthly_budget - monthly_interest' - monthly_min_amort',
                     Is_Sufficient = is_sufficient\<rparr>
              else
                Inr \<lparr>Interest = monthly_interest',
                     Amortization = min (loan / 12)
                                        (max monthly_min_amort' (monthly_budget - monthly_interest')),
                     Investment = 0,
                     Is_Sufficient = is_sufficient\<rparr>)"

section \<open>The annual simulators\<close>

text \<open>
  The loop-local variables of \<^verbatim>\<open>simulate_real_estate_strategy\<close> and
  \<^verbatim>\<open>simulate_hybrid_strategy\<close> that survive from one iteration to the next, and the
  per-year locals \<^verbatim>\<open>amortization\<close>, \<^verbatim>\<open>monthly_investment\<close> and
  \<^verbatim>\<open>monthly_min_amort\<close> as last assigned (each simulator assigns the ones it has;
  before the first iteration they are unbound in the source and \<open>0\<close> here).
\<close>

record sim_state =
  balance :: real
  property_value :: real
  investment_value :: real
  net_worth :: "real list"
  payoff_year :: "nat option"
  amortization :: real
  monthly_investment :: real
  monthly_min_amort_year :: real

definition target_ltv :: real where
  "target_ltv = 0.667"

definition init_state :: "real \<Rightarrow> real \<Rightarrow> sim_state" where
  "init_state property_price down_payment =
     \<lparr>balance = property_price - down_payment,
      property_value = property_price,
      investment_value = 0,
      net_worth = [],
      payoff_year = None,
      amortization = 0,
      monthly_investment = 0,
      monthly_min_amort_year = 0\<rparr>"

subsection \<open>Real-estate strategy\<close>

definition real_estate_min_amort_per_year :: "real \<Rightarrow> real \<Rightarrow> real" where
  "real_estate_min_amort_per_year property_price down_payment =
     (let loan = property_price - down_payment
      in if (1 - down_payment / property_price) > 0.667
         then (loan - property_price * 0.667) / 15
         else 0)"

text \<open>
  One iteration of \<^verbatim>\<open>for year in range(30)\<close>. The module-level
  \<^verbatim>\<open>portfolio_return\<close> that the function reads is a parameter.
\<close>

definition real_estate_year ::
  "real \<Rightarrow> real \<Rightarrow> real \<Rightarrow> real \<Rightarrow> int \<Rightarrow> bool \<Rightarrow> real \<Rightarrow> nat \<Rightarrow> sim_state \<Rightarrow> sim_state" where
  "real_estate_year portfolio_return monthly_budget interest_rate appreciation_rate amort_years
       continue_amortization min_amort_per_year year s =
     (let property_value' = property_value s * (1 + appreciation_rate);
          interest = balance s * interest_rate;
          current_ltv = (if property_value' > 0 then balance s / property_value' else 0);
          available_for_amort = monthly_budget * 12 - interest;
          s1 =
            (if balance s = 0 then
               s\<lparr>monthly_investment := monthly_budget,
                 investment_value := investment_value s * (1 + portfolio_return) + monthly_budget * 12,
                 amortization := 0\<rparr>
             else if current_ltv > target_ltv \<or> (continue_amortization \<and> int year < amort_years) then
               (let amortization' = min (balance s) (max min_amort_per_year available_for_amort);
                    balance' = balance s - amortization'
                in s\<lparr>amortization := amortization',
                     balance := balance',
                     monthly_investment := 0,
                     payoff_year := (if balance' = 0 \<and> payoff_year s = None
                                     then Some (year + 1) else payoff_year s)\<rparr>)
             else
               (let monthly_investment' = max 0 ((monthly_budget * 12 - interest) / 12)
                in s\<lparr>amortization := 0,
                     monthly_investment := monthly_investment',
                     investment_value := investment_value s * (1 + portfolio_return)
                                          + monthly_investment' * 12\<rparr>))
      in s1\<lparr>property_value := property_value',
             net_worth := net_worth s1 @ [property_value' - balance s1 + investment_value s1]\<rparr>)"

text \<open>The state after the first \<open>n\<close> iterations of the loop.\<close>

definition real_estate_run ::
  "real \<Rightarrow> real \<Rightarrow> real \<Rightarrow> real \<Rightarrow> real \<Rightarrow> real \<Rightarrow> int \<Rightarrow> bool \<Rightarrow> nat \<Rightarrow> sim_state" where
  "real_estate_run portfolio_return property_price down_payment monthly_budget interest_rate
       appreciation_rate amort_years continue_amortization n =
     fold (real_estate_year portfolio_return monthly_budget interest_rate appreciation_rate
             amort_years continue_amortization
             (real_estate_min_amort_per_year property_price down_payment))
          [0..<n] (init_state property_price down_payment)"

definition simulate_real_estate_strategy ::
  "real \<Rightarrow> real \<Rightarrow> real \<Rightarrow> real \<Rightarrow> real \<Rightarrow> real \<Rightarrow> int \<Rightarrow> bool
     \<Rightarrow> py_error + (real list \<times> nat option)" where
  "simulate_real_estate_strategy portfolio_return property_price down_payment monthly_budget
       interest_rate appreciation_rate amort_years continue_amortization =
     (if property_price = 0 then Inl ZeroDivisionError
      else
        let s = real_estate_run portfolio_return property_price down_payment monthly_budget
                  interest_rate appreciation_rate amort_years continue_amortization 30
        in Inr (net_worth s, payoff_year s))"

subsection \<open>Hybrid strategy\<close>

definition hybrid_min_amort_per_year :: "real \<Rightarrow> real \<Rightarrow> real" where
  "hybrid_min_amort_per_year property_price down_payment =
     (let loan = property_price - down_payment
      in if (1 - down_payment / property_price) > 0.667
         then (loan - property_price * 0.667) / 15
         else 0)"

text \<open>
  One iteration of the hybrid loop. In the branch \<^verbatim>\<open>balance == 0\<close> the source assigns
  \<^verbatim>\<open>investment_value\<close> inside the branch, and the statement after the branches
  (\<^verbatim>\<open># Grow investments\<close>) assigns it again in every branch.
\<close>

definition hybrid_year ::
  "real \<Rightarrow> real \<Rightarrow> real \<Rightarrow> real \<Rightarrow> int \<Rightarrow> real \<Rightarrow> nat \<Rightarrow> sim_state \<Rightarrow> sim_state" where
  "hybrid_year monthly_budget interest_rate appreciation_rate portfolio_return amort_years
       min_amort_per_year year s =
     (let property_value' = property_value s * (1 + appreciation_rate);
          interest = balance s * interest_rate;
          current_ltv = (if property_value' > 0 then balance s / property_value' else 0);
          monthly_interest' = interest / 12;
          s1 =
            (if balance s = 0 then
               s\<lparr>monthly_min_amort_year := 0,
                 monthly_investment := monthly_budget,
                 investment_value := investment_value s * (1 + portfolio_return) + monthly_budget * 12\<rparr>
             else if current_ltv > target_ltv \<and> int year < amort_years then
               (let monthly_min_amort' = min_amort_per_year / 12;
                    balance' = balance s - min_amort_per_year
                in s\<lparr>monthly_min_amort_year := monthly_min_amort',
                     monthly_investment := max 0 (monthly_budget - monthly_interest' - monthly_min_amort'),
                     balance := balance',
                     payoff_year := (if balance' = 0 \<and> payoff_year s = None
                                     then Some (year + 1) else payoff_year s)\<rparr>)
             else
               s\<lparr>monthly_min_amort_year := 0,
                 monthly_investment := max 0 (monthly_budget - monthly_interest')\<rparr>);
          s2 = s1\<lparr>balance := max 0 (balance s1)\<rparr>;
          s3 = s2\<lparr>investment_value := investment_value s2 * (1 + portfolio_return)
                                         + monthly_investment s2 * 12\<rparr>
      in s3\<lparr>property_value := property_value',
             net_worth := net_worth s3 @ [property_value' - balance s3 + investment_value s3]\<rparr>)"

definition hybrid_run ::
  "real \<Rightarrow> real \<Rightarrow> real \<Rightarrow> real \<Rightarrow> real \<Rightarrow> real \<Rightarrow> int \<Rightarrow> nat \<Rightarrow> sim_state" where
  "hybrid_run property_price down_payment monthly_budget interest_rate appreciation_rate
       portfolio_return amort_years n =
     fold (hybrid_year monthly_budget interest_rate appreciation_rate portfolio_return amort_years
             (hybrid_min_amort_per_year property_price down_payment))
          [0..<n] (init_state property_price down_payment)"

definition simulate_hybrid_strategy ::
  "real \<Rightarrow> real \<Rightarrow> real \<Rightarrow> real \<Rightarrow> real \<Rightarrow> real \<Rightarrow> int \<Rightarrow> py_error + (real list \<times> nat option)" where
  "simulate_hybrid_strategy property_price down_payment monthly_budget interest_rate
       appreciation_rate portfolio_return amort_years =
     (if property_price = 0 then Inl ZeroDivisionError
      else
        let s = hybrid_run property_price down_payment monthly_budget interest_rate
                  appreciation_rate portfolio_return amort_years 30
        in Inr (net_worth s, payoff_year s))"

section \<open>Pure-investment strategy\<close>

text \<open>
  One iteration of \<^verbatim>\<open>for _ in range(years * 12)\<close>, on the pair of \<^verbatim>\<open>value\<close> and
  \<^verbatim>\<open>progression\<close>. The module-level \<^verbatim>\<open>monthly_rent\<close> is a parameter.
\<close>

definition investment_month :: "real \<Rightarrow> real \<Rightarrow> real \<Rightarrow> nat \<Rightarrow> real \<times> real list \<Rightarrow> real \<times> real list" where
  "investment_month monthly_rent monthly_amount monthly_rate i st =
     (let value = fst st * (1 + monthly_rate) + (monthly_amount - monthly_rent)
      in (value, if i mod 12 = 11 then snd st @ [value] else snd st))"

definition simulate_investment_strategy ::
  "real \<Rightarrow> real \<Rightarrow> real \<Rightarrow> real \<Rightarrow> int \<Rightarrow> py_error + real list" where
  "simulate_investment_strategy monthly_rent monthly_amount annual_return initial_capital years =
     (if 1 + annual_return < 0 then Inl ComplexValue
      else
        let monthly_rate = (1 + annual_return) powr (1 / 12) - 1
        in Inr (snd (fold (investment_month monthly_rent monthly_amount monthly_rate)
                       [0..<nat (years * 12)] (initial_capital, []))))"

section \<open>LTV progression\<close>

record ltv_state =
  ltv_balance :: real
  ltv_property_value :: real
  years_to_target :: "nat option"
  target_reached :: bool
  balance_progression :: "real list"
  ltv_progression :: "real list"
  amort_progression :: "real list"

text \<open>The debug dictionary that \<^verbatim>\<open>calculate_ltv_progression\<close> returns last.\<close>

record ltv_debug =
  dbg_property_price :: real
  dbg_loan :: real
  dbg_target_ltv :: real
  dbg_required_loan_reduction :: real
  dbg_min_monthly_amort :: real
  dbg_initial_monthly_interest :: real
  dbg_years_to_target :: "nat option"
  dbg_final_ltv :: real
  dbg_final_balance :: real
  dbg_strategy :: string

definition ltv_init :: "real \<Rightarrow> real \<Rightarrow> ltv_state" where
  "ltv_init property_price down_payment =
     \<lparr>ltv_balance = property_price - down_payment,
      ltv_property_value = property_price,
      years_to_target = None,
      target_reached = False,
      balance_progression = [],
      ltv_progression = [],
      amort_progression = []\<rparr>"

definition ltv_min_monthly_amort :: "real \<Rightarrow> real \<Rightarrow> real" where
  "ltv_min_monthly_amort property_price down_payment =
     (let loan = property_price - down_payment;
          required_loan_reduction = loan - (property_price * target_ltv)
      in required_loan_reduction / (15 * 12))"

text \<open>
  The amortization that one iteration of \<^verbatim>\<open>for month in range(360)\<close> chooses, from the
  balance and the loan-to-value it has just computed.
\<close>

definition ltv_monthly_amort :: "real \<Rightarrow> real \<Rightarrow> string \<Rightarrow> real \<Rightarrow> real \<Rightarrow> real \<Rightarrow> real" where
  "ltv_monthly_amort monthly_budget interest_rate strategy min_monthly_amort bal current_ltv =
     (let monthly_interest' = bal * interest_rate / 12
      in if current_ltv \<le> target_ltv then
           (if strategy = ''pure_max'' then
              (let available_for_amort = monthly_budget - monthly_interest'
               in min bal (max min_monthly_amort available_for_amort))
            else 0)
         else
           (if strategy = ''hybrid'' then min_monthly_amort
            else
              (let available_for_amort = monthly_budget - monthly_interest'
               in min bal (max min_monthly_amort available_for_amort))))"

text \<open>
  The loop's \<^verbatim>\<open>current_ltv = balance / property_value if property_value > 0 else 0\<close>.
\<close>

definition current_ltv_of :: "real \<Rightarrow> real \<Rightarrow> real" where
  "current_ltv_of bal property_value' = (if property_value' > 0 then bal / property_value' else 0)"

text \<open>
  One iteration of the monthly loop. The module-level \<^verbatim>\<open>real_estate_growth\<close> enters
  through \<open>monthly_growth\<close>, the factor \<^verbatim>\<open>(1 + real_estate_growth) ** (1/12)\<close>.
\<close>

definition ltv_month ::
  "real \<Rightarrow> real \<Rightarrow> real \<Rightarrow> string \<Rightarrow> real \<Rightarrow> nat \<Rightarrow> ltv_state \<Rightarrow> ltv_state" where
  "ltv_month monthly_growth monthly_budget interest_rate strategy min_monthly_amort month s =
     (let property_value' = ltv_property_value s * monthly_growth;
          current_ltv = current_ltv_of (ltv_balance s) property_value';
          s1 = (if current_ltv \<le> target_ltv \<and> \<not> target_reached s
                then s\<lparr>target_reached := True, years_to_target := Some (month div 12 + 1)\<rparr>
                else s);
          monthly_amort = ltv_monthly_amort monthly_budget interest_rate strategy min_monthly_amort
                            (ltv_balance s) current_ltv;
          balance' = max 0 (ltv_balance s - monthly_amort)
      in s1\<lparr>ltv_property_value := property_value',
             ltv_balance := balance',
             balance_progression := balance_progression s1 @ [balance'],
             ltv_progression := ltv_progression s1 @ [current_ltv],
             amort_progression := amort_progression s1 @ [monthly_amort]\<rparr>)"

text \<open>The state after the first \<open>n\<close> months.\<close>

definition ltv_run :: "real \<Rightarrow> real \<Rightarrow> real \<Rightarrow> real \<Rightarrow> real \<Rightarrow> string \<Rightarrow> nat \<Rightarrow> ltv_state" where
  "ltv_run real_estate_growth property_price down_payment monthly_budget interest_rate strategy n =
     fold (ltv_month ((1 + real_estate_growth) powr (1 / 12)) monthly_budget interest_rate strategy
             (ltv_min_monthly_amort property_price down_payment))
          [0..<n] (ltv_init property_price down_payment)"

definition calculate_ltv_progression ::
  "real \<Rightarrow> real \<Rightarrow> real \<Rightarrow> real \<Rightarrow> real \<Rightarrow> string
     \<Rightarrow> py_error + (nat option \<times> real list \<times> real list \<times> ltv_debug)" where
  "calculate_ltv_progression real_estate_growth property_price down_payment monthly_budget
       interest_rate strategy =
     (if 1 + real_estate_growth < 0 then Inl TypeError
      else
        let loan = property_price - down_payment;
            s = ltv_run real_estate_growth property_price down_payment monthly_budget
                  interest_rate strategy 360
        in Inr (years_to_target s, balance_progression s, ltv_progression s,
                \<lparr>dbg_property_price = property_price,
                 dbg_loan = loan,
                 dbg_target_ltv = target_ltv,
                 dbg_required_loan_reduction = loan - (property_price * target_ltv),
                 dbg_min_monthly_amort = ltv_min_monthly_amort property_price down_payment,
                 dbg_initial_monthly_interest = (loan * interest_rate) / 12,
                 dbg_years_to_target = years_to_target s,
                 dbg_final_ltv = last (ltv_progression s),
                 dbg_final_balance = last (balance_progression s),
                 dbg_strategy = strategy\<rparr>))"

section \<open>Budget sufficiency along the real-estate simulation\<close>

text \<open>
  In every year of the horizon the annual budget exceeds that year's interest (the
  \<^verbatim>\<open>interest\<close> that the loop computes from the balance at the start of the year) plus the
  minimum annual amortization.
\<close>

definition budget_exceeds_minimum ::
  "real \<Rightarrow> real \<Rightarrow> real \<Rightarrow> real \<Rightarrow> real \<Rightarrow> real \<Rightarrow> int \<Rightarrow> bool \<Rightarrow> bool" where
  "budget_exceeds_minimum portfolio_return property_price down_payment monthly_budget interest_rate
       appreciation_rate amort_years continue_amortization =
     list_all
       (\<lambda>year. monthly_budget * 12
                > balance (real_estate_run portfolio_return property_price down_payment
                             monthly_budget interest_rate appreciation_rate amort_years
                             continue_amortization year) * interest_rate
                  + real_estate_min_amort_per_year property_price down_payment)
       [0..<30]"

text \<open>
  In the given year the loan is open, the simulator takes its amortizing branch (the
  loan-to-value is above the target, or amortization continues and the year is inside the
  window), and the annual budget left after the year's interest is at least the balance.
\<close>

definition budget_covers_balance ::
  "real \<Rightarrow> real \<Rightarrow> real \<Rightarrow> real \<Rightarrow> real \<Rightarrow> real \<Rightarrow> int \<Rightarrow> bool \<Rightarrow> nat \<Rightarrow> bool" where
  "budget_covers_balance portfolio_return property_price down_payment monthly_budget interest_rate
       appreciation_rate amort_years continue_amortization year =
     (let s = real_estate_run portfolio_return property_price down_payment monthly_budget
                interest_rate appreciation_rate amort_years continue_amortization year;
          property_value' = property_value s * (1 + appreciation_rate);
          interest = balance s * interest_rate;
          current_ltv = (if property_value' > 0 then balance s / property_value' else 0)
      in balance s \<noteq> 0
         \<and> (current_ltv > target_ltv \<or> (continue_amortization \<and> int year < amort_years))
         \<and> balance s \<le> monthly_budget * 12 - interest)"

section \<open>The regulatory rule as the specification words it\<close>

text \<open>
  The specification's rule: the minimum annual amortization is
  \<open>(loan - price * targetLTV) / gracePeriodYears\<close> when the initial loan-to-value
  \<open>loan / price\<close> exceeds \<open>targetLTV = 0.667\<close>, and \<open>0\<close> otherwise.
\<close>

definition spec_min_annual_amortization :: "real \<Rightarrow> real \<Rightarrow> real" where
  "spec_min_annual_amortization loan price =
     (if loan / price > 0.667 then (loan - price * 0.667) / 15 else 0)"

section \<open>The regulatory amortization rule\<close>

lemma initial_ltv_eq:
  fixes property_price down_payment :: real
  assumes "property_price \<noteq> 0"
  shows "(property_price - down_payment) / property_price = 1 - down_payment / property_price"
  using assms by (simp add: diff_divide_distrib)

lemma spec_min_annual_amortization_code:
  assumes "property_price \<noteq> 0"
  shows "spec_min_annual_amortization (property_price - down_payment) property_price
         = (if 1 - down_payment / property_price > 0.667
            then (property_price - down_payment - property_price * 0.667) / 15 else 0)"
  unfolding spec_min_annual_amortization_def initial_ltv_eq[OF assms] by (rule refl)

text \<open>
  C4. For a nonnegative loan and a positive property price, the minimum annual
  amortization is \<open>0\<close> when \<open>loan / price \<le> 0.667\<close> and \<open>(loan - 0.667 * price) / 15\<close>
  otherwise, and \<^verbatim>\<open>calculate_minimum_payments\<close> (which returns a twelfth of it),
  \<^verbatim>\<open>calculate_monthly_payments\<close> and the two annual simulators all compute this value.
\<close>

theorem min_amort_rule:
  assumes "0 \<le> property_price - down_payment" and "0 < property_price"
  shows "(\<exists>r. calculate_minimum_payments property_price down_payment interest_rate = Inr r
            \<and> monthly_min_amort r
                = spec_min_annual_amortization (property_price - down_payment) property_price / 12)
       \<and> monthly_payments_min_amort_per_year property_price down_payment
           = spec_min_annual_amortization (property_price - down_payment) property_price
       \<and> real_estate_min_amort_per_year property_price down_payment
           = spec_min_annual_amortization (property_price - down_payment) property_price
       \<and> hybrid_min_amort_per_year property_price down_payment
           = spec_min_annual_amortization (property_price - down_payment) property_price
       \<and> spec_min_annual_amortization (property_price - down_payment) property_price
           = (if (property_price - down_payment) / property_price \<le> 0.667 then 0
              else ((property_price - down_payment) - 0.667 * property_price) / 15)"
proof -
  from assms have nz: "property_price \<noteq> 0" by simp
  have a: "\<exists>r. calculate_minimum_payments property_price down_payment interest_rate = Inr r
            \<and> monthly_min_amort r
                = spec_min_annual_amortization (property_price - down_payment) property_price / 12"
    using nz by (simp add: calculate_minimum_payments_def spec_min_annual_amortization_code Let_def)
  have b: "monthly_payments_min_amort_per_year property_price down_payment
           = spec_min_annual_amortization (property_price - down_payment) property_price"
    using nz by (simp add: monthly_payments_min_amort_per_year_def spec_min_annual_amortization_code Let_def)
  have c: "real_estate_min_amort_per_year property_price down_payment
           = spec_min_annual_amortization (property_price - down_payment) property_price"
    using nz by (simp add: real_estate_min_amort_per_year_def spec_min_annual_amortization_code Let_def)
  have d: "hybrid_min_amort_per_year property_price down_payment
           = spec_min_annual_amortization (property_price - down_payment) property_price"
    using nz by (simp add: hybrid_min_amort_per_year_def spec_min_annual_amortization_code Let_def)
  have e: "spec_min_annual_amortization (property_price - down_payment) property_price
           = (if (property_price - down_payment) / property_price \<le> 0.667 then 0
              else ((property_price - down_payment) - 0.667 * property_price) / 15)"
    by (simp add: spec_min_annual_amortization_def not_le mult.commute)
  from a b c d e show ?thesis by blast
qed

theorem min_amort_rule_witness:
  "(0::real) \<le> 1000000 - 200000 \<and> (0::real) < 1000000
   \<and> (\<exists>r. calculate_minimum_payments 1000000 200000 (15 / 1000) = Inr r
          \<and> monthly_min_amort r = 133000 / 15 / 12)
   \<and> real_estate_min_amort_per_year 1000000 200000 = 133000 / 15
   \<and> hybrid_min_amort_per_year 1000000 500000 = 0"
  using min_amort_rule[of 1000000 200000 "15 / 1000"] min_amort_rule[of 1000000 500000 0]
  by (simp add: spec_min_annual_amortization_def)

section \<open>The yearly loops, step by step\<close>

lemma real_estate_run_0:
  "real_estate_run pr p d b r g a c 0 = init_state p d"
  by (simp add: real_estate_run_def)

lemma real_estate_run_Suc:
  "real_estate_run pr p d b r g a c (Suc n) =
   real_estate_year pr b r g a c (real_estate_min_amort_per_year p d) n (real_estate_run pr p d b r g a c n)"
  by (simp add: real_estate_run_def)

lemma hybrid_run_0:
  "hybrid_run p d b r g pr a 0 = init_state p d"
  by (simp add: hybrid_run_def)

lemma hybrid_run_Suc:
  "hybrid_run p d b r g pr a (Suc n) =
   hybrid_year b r g pr a (hybrid_min_amort_per_year p d) n (hybrid_run p d b r g pr a n)"
  by (simp add: hybrid_run_def)

text \<open>What one real-estate year does to the balance, the amortization and the payoff year.\<close>

lemma real_estate_year_balance:
  "balance (real_estate_year pr b r g a c m n s) = balance s - amortization (real_estate_year pr b r g a c m n s)"
  by (simp add: real_estate_year_def Let_def)

lemma real_estate_year_amortization_le:
  "amortization (real_estate_year pr b r g a c m n s) \<le> max 0 (balance s)"
  by (simp add: real_estate_year_def Let_def min_le_iff_disj le_max_iff_disj)

lemma real_estate_year_payoff:
  "payoff_year (real_estate_year pr b r g a c m n s) =
     (if balance s \<noteq> 0 \<and> balance (real_estate_year pr b r g a c m n s) = 0 \<and> payoff_year s = None
      then Some (Suc n) else payoff_year s)"
  by (simp add: real_estate_year_def Let_def)

lemma hybrid_year_balance_nonneg:
  "0 \<le> balance (hybrid_year b r g pr a m n s)"
  by (simp add: hybrid_year_def Let_def)

lemma hybrid_year_balance_le:
  assumes "monthly_min_amort_year (hybrid_year b r g pr a m n s) > 0"
  shows "balance (hybrid_year b r g pr a m n s) \<le> balance s"
proof -
  let ?pv = "property_value s * (1 + g)"
  let ?ltv = "if ?pv > 0 then balance s / ?pv else 0"
  from assms have br: "balance s \<noteq> 0" "?ltv > target_ltv" "m > 0"
    by (auto simp add: hybrid_year_def Let_def split: if_splits)
  have t: "0 < target_ltv" by (simp add: target_ltv_def)
  from br(2) t have pv: "?pv > 0"
    by (simp split: if_splits)
  with br(2) t have "balance s / ?pv > 0"
    by simp
  with pv have "balance s > 0" by (simp add: zero_less_divide_iff)
  with br show ?thesis
    by (simp add: hybrid_year_def Let_def)
qed

lemma real_estate_run_balance_nonneg:
  assumes "d \<le> p"
  shows "0 \<le> balance (real_estate_run pr p d b r g a c n)"
proof (induction n)
  case 0
  from assms show ?case by (simp add: real_estate_run_0 init_state_def)
next
  case (Suc n)
  let ?s = "real_estate_run pr p d b r g a c n"
  let ?m = "real_estate_min_amort_per_year p d"
  have "amortization (real_estate_year pr b r g a c ?m n ?s) \<le> max 0 (balance ?s)"
    by (rule real_estate_year_amortization_le)
  with Suc.IH have "amortization (real_estate_year pr b r g a c ?m n ?s) \<le> balance ?s"
    by simp
  then show ?case
    by (simp add: real_estate_run_Suc real_estate_year_balance)
qed

text \<open>
  C8, amended. For every input with \<open>down_payment \<le> property_price\<close> (the data model's
  invariant on mortgage terms), the balance of the real-estate simulator, in both modes,
  is nonnegative after every yearly update; the balance of the hybrid simulator is
  nonnegative after every yearly update for every input; and in all of them, across a year
  whose amortization is positive the balance does not increase. The year's amortization is
  the local \<^verbatim>\<open>amortization\<close> in the real-estate simulator and
  \<^verbatim>\<open>monthly_min_amort\<close> in the hybrid one.
\<close>

theorem balance_floor_and_monotone:
  "(down_payment \<le> property_price
      \<longrightarrow> 0 \<le> balance (real_estate_run pr property_price down_payment b r g a c (Suc n)))
       \<and> (amortization (real_estate_run pr property_price down_payment b r g a c (Suc n)) > 0
            \<longrightarrow> balance (real_estate_run pr property_price down_payment b r g a c (Suc n))
                 \<le> balance (real_estate_run pr property_price down_payment b r g a c n))
       \<and> 0 \<le> balance (hybrid_run property_price down_payment b r g pr a (Suc n))
       \<and> (monthly_min_amort_year (hybrid_run property_price down_payment b r g pr a (Suc n)) > 0
            \<longrightarrow> balance (hybrid_run property_price down_payment b r g pr a (Suc n))
                 \<le> balance (hybrid_run property_price down_payment b r g pr a n))"
proof -
  have 1: "down_payment \<le> property_price
      \<longrightarrow> 0 \<le> balance (real_estate_run pr property_price down_payment b r g a c (Suc n))"
    by (simp add: real_estate_run_balance_nonneg)
  have 2: "amortization (real_estate_run pr property_price down_payment b r g a c (Suc n)) > 0
            \<longrightarrow> balance (real_estate_run pr property_price down_payment b r g a c (Suc n))
                 \<le> balance (real_estate_run pr property_price down_payment b r g a c n)"
    by (simp add: real_estate_run_Suc real_estate_year_balance)
  have 3: "0 \<le> balance (hybrid_run property_price down_payment b r g pr a (Suc n))"
    by (simp add: hybrid_run_Suc hybrid_year_balance_nonneg)
  have 4: "monthly_min_amort_year (hybrid_run property_price down_payment b r g pr a (Suc n)) > 0
            \<longrightarrow> balance (hybrid_run property_price down_payment b r g pr a (Suc n))
                 \<le> balance (hybrid_run property_price down_payment b r g pr a n)"
    by (simp add: hybrid_run_Suc hybrid_year_balance_le)
  from 1 2 3 4 show ?thesis by blast
qed

lemma find_snoc:
  "find P (xs @ [x]) = (case find P xs of None \<Rightarrow> (if P x then Some x else None) | Some y \<Rightarrow> Some y)"
  by (induction xs) auto

text \<open>
  An equity above the price (both sliders allow it: price 500000, equity 600000) starts
  the balance at \<open>-100000\<close>. Without continued amortization the loan-to-value is
  negative, the real-estate simulator takes its last branch and leaves the balance as it
  is: below zero after the first update.
\<close>

theorem negative_loan_balance_counterexample:
  "balance (real_estate_run (96 / 1000) 500000 600000 3500 (15 / 1000) (2 / 100) 15 False 1) = - 100000"
  by (simp add: real_estate_run_0 real_estate_run_Suc real_estate_year_def init_state_def
      real_estate_min_amort_per_year_def Let_def target_ltv_def)

theorem balance_floor_and_monotone_witness:
  "(200000::real) \<le> 1000000
   \<and> amortization (real_estate_run (96 / 1000) 1000000 200000 3500 (15 / 1000) (2 / 100) 15 True (Suc 0)) = 30000
   \<and> balance (real_estate_run (96 / 1000) 1000000 200000 3500 (15 / 1000) (2 / 100) 15 True (Suc 0))
        \<le> balance (real_estate_run (96 / 1000) 1000000 200000 3500 (15 / 1000) (2 / 100) 15 True 0)
   \<and> 0 \<le> balance (real_estate_run (96 / 1000) 1000000 200000 3500 (15 / 1000) (2 / 100) 15 True (Suc 0))
   \<and> 0 < monthly_min_amort_year (hybrid_run 1000000 200000 3500 (15 / 1000) (2 / 100) (96 / 1000) 15 (Suc 0))
   \<and> balance (hybrid_run 1000000 200000 3500 (15 / 1000) (2 / 100) (96 / 1000) 15 (Suc 0))
        \<le> balance (hybrid_run 1000000 200000 3500 (15 / 1000) (2 / 100) (96 / 1000) 15 0)"
  using balance_floor_and_monotone[of 200000 1000000 "96 / 1000" 3500 "15 / 1000" "2 / 100" 15 True 0]
  by (simp add: real_estate_run_0 real_estate_run_Suc real_estate_year_def init_state_def
      real_estate_min_amort_per_year_def hybrid_run_0 hybrid_run_Suc hybrid_year_def
      hybrid_min_amort_per_year_def Let_def target_ltv_def)

section \<open>The payoff year\<close>

lemma real_estate_year_zero_balance:
  assumes "balance s = 0"
  shows "balance (real_estate_year pr b r g a c m n s) = 0"
    and "payoff_year (real_estate_year pr b r g a c m n s) = payoff_year s"
  using assms by (simp_all add: real_estate_year_def Let_def)

lemma hybrid_year_zero_balance:
  assumes "balance s = 0"
  shows "balance (hybrid_year b r g pr a m n s) = 0"
    and "payoff_year (hybrid_year b r g pr a m n s) = payoff_year s"
  using assms by (simp_all add: hybrid_year_def Let_def)

text \<open>
  The payoff test of the hybrid year, in terms of the year's amortization
  (\<open>12 * monthly_min_amort\<close>): a payoff year is recorded when the subtraction itself leaves
  exactly zero, before the floor is applied.
\<close>

lemma hybrid_year_payoff:
  "payoff_year (hybrid_year b r g pr a m n s) =
     (if balance s \<noteq> 0
         \<and> balance s - 12 * monthly_min_amort_year (hybrid_year b r g pr a m n s) = 0
         \<and> payoff_year s = None
      then Some (Suc n) else payoff_year s)"
  by (simp add: hybrid_year_def Let_def)

lemma hybrid_year_balance_floor:
  "balance (hybrid_year b r g pr a m n s)
   = max 0 (balance s - 12 * monthly_min_amort_year (hybrid_year b r g pr a m n s))"
  by (simp add: hybrid_year_def Let_def)

lemma real_estate_run_payoff_transition:
  "payoff_year (real_estate_run pr p d b r g a c n)
   = find (\<lambda>k. balance (real_estate_run pr p d b r g a c (k - 1)) \<noteq> 0
               \<and> balance (real_estate_run pr p d b r g a c k) = 0) [1..<Suc n]"
proof (induction n)
  case 0
  show ?case by (simp add: real_estate_run_0 init_state_def)
next
  case (Suc n)
  let ?run = "real_estate_run pr p d b r g a c"
  let ?P = "\<lambda>k. balance (?run (k - 1)) \<noteq> 0 \<and> balance (?run k) = 0"
  define xs where "xs = [1..<Suc n]"
  have split: "[1..<Suc (Suc n)] = xs @ [Suc n]" by (simp add: xs_def)
  have IH: "payoff_year (?run n) = find ?P xs" using Suc.IH by (simp only: xs_def)
  have step: "payoff_year (?run (Suc n)) =
     (if ?P (Suc n) \<and> payoff_year (?run n) = None then Some (Suc n) else payoff_year (?run n))"
    by (simp add: real_estate_run_Suc real_estate_year_payoff)
  show ?case
    unfolding split find_snoc step IH
    by (cases "find ?P xs") simp_all
qed

lemma hybrid_run_payoff_exact:
  "payoff_year (hybrid_run p d b r g pr a n)
   = find (\<lambda>k. balance (hybrid_run p d b r g pr a (k - 1)) \<noteq> 0
               \<and> balance (hybrid_run p d b r g pr a (k - 1))
                   - 12 * monthly_min_amort_year (hybrid_run p d b r g pr a k) = 0) [1..<Suc n]"
proof (induction n)
  case 0
  show ?case by (simp add: hybrid_run_0 init_state_def)
next
  case (Suc n)
  let ?run = "hybrid_run p d b r g pr a"
  let ?P = "\<lambda>k. balance (?run (k - 1)) \<noteq> 0
                 \<and> balance (?run (k - 1)) - 12 * monthly_min_amort_year (?run k) = 0"
  define xs where "xs = [1..<Suc n]"
  have split: "[1..<Suc (Suc n)] = xs @ [Suc n]" by (simp add: xs_def)
  have IH: "payoff_year (?run n) = find ?P xs" using Suc.IH by (simp only: xs_def)
  have step: "payoff_year (?run (Suc n)) =
     (if ?P (Suc n) \<and> payoff_year (?run n) = None then Some (Suc n) else payoff_year (?run n))"
    using hybrid_year_payoff[of b r g pr a "hybrid_min_amort_per_year p d" n "?run n"]
    by (simp add: hybrid_run_Suc)
  show ?case
    unfolding split find_snoc step IH
    by (cases "find ?P xs") simp_all
qed

text \<open>
  C2, amended. For every input (with a nonzero price, for which the simulators return),
  the payoff year returned by the real-estate simulator, in both modes, is the first year
  \<open>k\<close> of \<open>1, \<dots>, 30\<close> whose update takes the balance from nonzero to zero, and is
  absent exactly when there is no such year. The payoff year returned by the hybrid
  simulator is the first year in which the subtraction of the year's amortization
  (\<open>12 * monthly_min_amort\<close>) takes a nonzero balance to exactly zero; the balance after the
  year is that difference floored at zero, so a year in which the balance reaches zero
  only through the floor records no payoff year. (\<open>find\<close> returns the first element of the
  list that satisfies the predicate, or \<open>None\<close>.)
\<close>

theorem payoff_year_first_transition:
  assumes "property_price \<noteq> 0"
  shows "simulate_real_estate_strategy pr property_price down_payment b r g a c
           = Inr (net_worth (real_estate_run pr property_price down_payment b r g a c 30),
                  find (\<lambda>k. balance (real_estate_run pr property_price down_payment b r g a c (k - 1)) \<noteq> 0
                              \<and> balance (real_estate_run pr property_price down_payment b r g a c k) = 0)
                       [1..<31])
       \<and> simulate_hybrid_strategy property_price down_payment b r g pr a
           = Inr (net_worth (hybrid_run property_price down_payment b r g pr a 30),
                  find (\<lambda>k. balance (hybrid_run property_price down_payment b r g pr a (k - 1)) \<noteq> 0
                              \<and> balance (hybrid_run property_price down_payment b r g pr a (k - 1))
                                  - 12 * monthly_min_amort_year
                                           (hybrid_run property_price down_payment b r g pr a k) = 0)
                       [1..<31])
       \<and> (\<forall>k. balance (hybrid_run property_price down_payment b r g pr a (Suc k))
                = max 0 (balance (hybrid_run property_price down_payment b r g pr a k)
                         - 12 * monthly_min_amort_year
                                  (hybrid_run property_price down_payment b r g pr a (Suc k))))"
proof -
  have re: "simulate_real_estate_strategy pr property_price down_payment b r g a c
           = Inr (net_worth (real_estate_run pr property_price down_payment b r g a c 30),
                  find (\<lambda>k. balance (real_estate_run pr property_price down_payment b r g a c (k - 1)) \<noteq> 0
                              \<and> balance (real_estate_run pr property_price down_payment b r g a c k) = 0)
                       [1..<31])"
    using assms real_estate_run_payoff_transition[of pr property_price down_payment b r g a c 30]
    by (simp add: simulate_real_estate_strategy_def Let_def)
  have hy: "simulate_hybrid_strategy property_price down_payment b r g pr a
           = Inr (net_worth (hybrid_run property_price down_payment b r g pr a 30),
                  find (\<lambda>k. balance (hybrid_run property_price down_payment b r g pr a (k - 1)) \<noteq> 0
                              \<and> balance (hybrid_run property_price down_payment b r g pr a (k - 1))
                                  - 12 * monthly_min_amort_year
                                           (hybrid_run property_price down_payment b r g pr a k) = 0)
                       [1..<31])"
    using assms hybrid_run_payoff_exact[of property_price down_payment b r g pr a 30]
    by (simp add: simulate_hybrid_strategy_def Let_def)
  have fl: "\<forall>k. balance (hybrid_run property_price down_payment b r g pr a (Suc k))
                = max 0 (balance (hybrid_run property_price down_payment b r g pr a k)
                         - 12 * monthly_min_amort_year
                                  (hybrid_run property_price down_payment b r g pr a (Suc k)))"
    using hybrid_year_balance_floor by (simp add: hybrid_run_Suc)
  from re hy fl show ?thesis by blast
qed

text \<open>
  An equity above the price (price 500000, equity 600000): the hybrid balance starts at
  \<open>-100000\<close>, the first year's floor leaves it at zero, and no payoff year is returned.
\<close>

lemma hybrid_floor_run:
  "balance (hybrid_run 500000 600000 3500 (15 / 1000) (2 / 100) (96 / 1000) 15 (Suc n)) = 0
   \<and> payoff_year (hybrid_run 500000 600000 3500 (15 / 1000) (2 / 100) (96 / 1000) 15 (Suc n)) = None"
proof (induction n)
  case 0
  show ?case
    by (simp add: hybrid_run_0 hybrid_run_Suc hybrid_year_def init_state_def
        hybrid_min_amort_per_year_def Let_def target_ltv_def)
next
  case (Suc n)
  thus ?case
    by (simp add: hybrid_run_Suc[of _ _ _ _ _ _ _ "Suc n"] hybrid_year_zero_balance)
qed

theorem payoff_year_floor_counterexample:
  "balance (hybrid_run 500000 600000 3500 (15 / 1000) (2 / 100) (96 / 1000) 15 0) = - 100000
   \<and> balance (hybrid_run 500000 600000 3500 (15 / 1000) (2 / 100) (96 / 1000) 15 1) = 0
   \<and> map_sum id snd (simulate_hybrid_strategy 500000 600000 3500 (15 / 1000) (2 / 100) (96 / 1000) 15)
       = Inr None"
  using hybrid_floor_run[of 0] hybrid_floor_run[of 29]
  by (simp add: simulate_hybrid_strategy_def Let_def hybrid_run_0 init_state_def)

text \<open>
  A hybrid run that does record a payoff year: the loan is sixteen times the minimum
  amortization, and a falling property value keeps the loan-to-value above the target,
  so the sixteenth subtraction leaves exactly zero.
\<close>

lemma hybrid_year_amortizing:
  assumes "balance s \<noteq> 0" and "0 < property_value s * (1 + g)"
    and "target_ltv * (property_value s * (1 + g)) < balance s" and "int n < a"
  shows "balance (hybrid_year b r g pr a m n s) = max 0 (balance s - m)"
    and "monthly_min_amort_year (hybrid_year b r g pr a m n s) = m / 12"
    and "property_value (hybrid_year b r g pr a m n s) = property_value s * (1 + g)"
proof -
  from assms(2,3) have "target_ltv < balance s / (property_value s * (1 + g))"
    by (simp add: pos_less_divide_eq)
  with assms(1,2,4)
  show "balance (hybrid_year b r g pr a m n s) = max 0 (balance s - m)"
    and "monthly_min_amort_year (hybrid_year b r g pr a m n s) = m / 12"
    and "property_value (hybrid_year b r g pr a m n s) = property_value s * (1 + g)"
    by (simp_all add: hybrid_year_def Let_def)
qed

lemma exact_hit_run:
  assumes "n \<le> 16"
  shows "balance (hybrid_run 1000 (- 9672) 0 0 (- (1 / 2)) 0 16 n) = 10672 - 667 * real n
       \<and> property_value (hybrid_run 1000 (- 9672) 0 0 (- (1 / 2)) 0 16 n) = 1000 * (1 / 2) ^ n
       \<and> (0 < n \<longrightarrow> monthly_min_amort_year (hybrid_run 1000 (- 9672) 0 0 (- (1 / 2)) 0 16 n) = 667 / 12)"
  using assms
proof (induction n)
  case 0
  show ?case by (simp add: hybrid_run_0 init_state_def)
next
  case (Suc n)
  let ?s = "hybrid_run 1000 (- 9672) 0 0 (- (1 / 2)) 0 16 n"
  define B where "B = balance ?s"
  define pv where "pv = property_value ?s * (1 + - (1 / 2))"
  have m: "hybrid_min_amort_per_year 1000 (- 9672) = 667"
    by (simp add: hybrid_min_amort_per_year_def Let_def)
  from Suc have Bv: "B = 10672 - 667 * real n" and pvn: "property_value ?s = 1000 * (1 / 2) ^ n"
    and n: "n \<le> 15"
    unfolding B_def by simp_all
  from n have "real n \<le> 15" by simp
  with Bv have Bge: "667 \<le> B" by simp
  have pv: "pv = 1000 * (1 / 2) ^ Suc n" unfolding pv_def pvn by simp
  have "(1 / 2 :: real) ^ Suc n \<le> 1 / 2" "(0::real) < (1 / 2) ^ Suc n"
    by (simp_all add: power_le_one)
  with pv have pvb: "0 < pv" "pv \<le> 500" by simp_all
  have "target_ltv * pv \<le> target_ltv * 500"
    using pvb(2) by (intro mult_left_mono) (simp_all add: target_ltv_def)
  with Bge have lt: "target_ltv * pv < B" by (simp add: target_ltv_def)
  from Bge have nz: "B \<noteq> 0" by simp
  from n have na: "int n < 16" by simp
  note am = hybrid_year_amortizing[OF nz[unfolded B_def] pvb(1)[unfolded pv_def] lt[unfolded pv_def B_def] na,
      of 0 0 0 "hybrid_min_amort_per_year 1000 (- 9672)"]
  have "balance (hybrid_run 1000 (- 9672) 0 0 (- (1 / 2)) 0 16 (Suc n))
        = max 0 (B - hybrid_min_amort_per_year 1000 (- 9672))"
    by (simp only: hybrid_run_Suc am(1) B_def)
  hence 1: "balance (hybrid_run 1000 (- 9672) 0 0 (- (1 / 2)) 0 16 (Suc n)) = 10672 - 667 * real (Suc n)"
    unfolding m using Bge Bv by simp
  have "property_value (hybrid_run 1000 (- 9672) 0 0 (- (1 / 2)) 0 16 (Suc n)) = pv"
    by (simp only: hybrid_run_Suc am(3) pv_def)
  hence 2: "property_value (hybrid_run 1000 (- 9672) 0 0 (- (1 / 2)) 0 16 (Suc n)) = 1000 * (1 / 2) ^ Suc n"
    unfolding pv .
  have "monthly_min_amort_year (hybrid_run 1000 (- 9672) 0 0 (- (1 / 2)) 0 16 (Suc n))
        = hybrid_min_amort_per_year 1000 (- 9672) / 12"
    by (simp only: hybrid_run_Suc am(2))
  hence 3: "monthly_min_amort_year (hybrid_run 1000 (- 9672) 0 0 (- (1 / 2)) 0 16 (Suc n)) = 667 / 12"
    unfolding m .
  from 1 2 3 show ?case by blast
qed

lemma exact_hit_find:
  "find (\<lambda>k. balance (hybrid_run 1000 (- 9672) 0 0 (- (1 / 2)) 0 16 (k - 1)) \<noteq> 0
             \<and> balance (hybrid_run 1000 (- 9672) 0 0 (- (1 / 2)) 0 16 (k - 1))
                 - 12 * monthly_min_amort_year (hybrid_run 1000 (- 9672) 0 0 (- (1 / 2)) 0 16 k) = 0)
        [1..<31]
   = Some 16"
proof -
  let ?run = "hybrid_run 1000 (- 9672) 0 0 (- (1 / 2)) 0 16"
  define P where "P = (\<lambda>k. balance (?run (k - 1)) \<noteq> 0
             \<and> balance (?run (k - 1)) - 12 * monthly_min_amort_year (?run k) = 0)"
  have pre: "balance (?run (k - 1)) - 12 * monthly_min_amort_year (?run k) = 10672 - 667 * real k"
    if "1 \<le> k" "k \<le> 16" for k
  proof -
    from that have k1: "k - 1 \<le> 16" and kpos: "0 < k" and rk: "real (k - 1) = real k - 1" by simp_all
    from exact_hit_run[OF k1] exact_hit_run[OF that(2)] kpos rk show ?thesis by simp
  qed
  have no: "\<not> P k" if "1 \<le> k" "k \<le> 15" for k
  proof -
    from that have "k \<le> 16" "real k \<le> 15" by simp_all
    with pre[OF that(1)] show ?thesis unfolding P_def by simp
  qed
  have yes: "P 16"
  proof -
    have "balance (?run (16 - 1)) = 667" using exact_hit_run[of 15] by simp
    moreover have "balance (?run (16 - 1)) - 12 * monthly_min_amort_year (?run 16) = 0"
      using pre[of 16] by simp
    ultimately show ?thesis unfolding P_def by simp
  qed
  have no': "\<not> P (Suc j)" if "j < 15" for j
    using that no[of "Suc j"] by simp
  have "find P [1..<31] = Some 16"
    unfolding find_Some_iff using yes no' by (intro exI[of _ 15]) simp
  thus ?thesis unfolding P_def .
qed

lemma first_year_payoff_find:
  "find (\<lambda>k. balance (real_estate_run (96 / 1000) 1000000 990000 3500 (15 / 1000) (2 / 100) 15 True (k - 1)) \<noteq> 0
             \<and> balance (real_estate_run (96 / 1000) 1000000 990000 3500 (15 / 1000) (2 / 100) 15 True k) = 0)
        [1..<31]
   = Some 1"
proof -
  have l: "[1..<31] = 1 # [2..<31]" by (simp add: upt_conv_Cons)
  have "balance (real_estate_run (96 / 1000) 1000000 990000 3500 (15 / 1000) (2 / 100) 15 True (1 - 1)) \<noteq> 0
        \<and> balance (real_estate_run (96 / 1000) 1000000 990000 3500 (15 / 1000) (2 / 100) 15 True 1) = 0"
    by (simp add: real_estate_run_0 real_estate_run_Suc real_estate_year_def init_state_def
        real_estate_min_amort_per_year_def Let_def target_ltv_def)
  thus ?thesis unfolding l by simp
qed

theorem payoff_year_first_transition_witness:
  "(1000000::real) \<noteq> 0 \<and> (1000::real) \<noteq> 0
   \<and> map_sum id snd
        (simulate_real_estate_strategy (96 / 1000) 1000000 990000 3500 (15 / 1000) (2 / 100) 15 True)
       = Inr (Some 1)
   \<and> map_sum id snd (simulate_hybrid_strategy 1000 (- 9672) 0 0 (- (1 / 2)) 0 16) = Inr (Some 16)"
proof -
  have nz: "(1000000::real) \<noteq> 0" "(1000::real) \<noteq> 0" by simp_all
  from payoff_year_first_transition[OF nz(1), of "96 / 1000" 990000 3500 "15 / 1000" "2 / 100" 15 True]
  have "simulate_real_estate_strategy (96 / 1000) 1000000 990000 3500 (15 / 1000) (2 / 100) 15 True
          = Inr (net_worth (real_estate_run (96 / 1000) 1000000 990000 3500 (15 / 1000) (2 / 100) 15 True 30),
                 Some 1)"
    unfolding first_year_payoff_find by blast
  hence re: "map_sum id snd
        (simulate_real_estate_strategy (96 / 1000) 1000000 990000 3500 (15 / 1000) (2 / 100) 15 True)
       = Inr (Some 1)"
    by (simp only: map_sum.simps snd_conv)
  from payoff_year_first_transition[OF nz(2), of 0 "- 9672" 0 0 "- (1 / 2)" 16]
  have "simulate_hybrid_strategy 1000 (- 9672) 0 0 (- (1 / 2)) 0 16
          = Inr (net_worth (hybrid_run 1000 (- 9672) 0 0 (- (1 / 2)) 0 16 30), Some 16)"
    unfolding exact_hit_find by blast
  hence hy: "map_sum id snd (simulate_hybrid_strategy 1000 (- 9672) 0 0 (- (1 / 2)) 0 16) = Inr (Some 16)"
    by (simp only: map_sum.simps snd_conv)
  from nz re hy show ?thesis by blast
qed

section \<open>The investment account of the hybrid simulator\<close>

text \<open>What one hybrid year does to the investment account, branch by branch.\<close>

lemma hybrid_year_investment_value:
  "investment_value (hybrid_year b r g pr a m n s) =
     (if balance s = 0 then
        (investment_value s * (1 + pr) + b * 12) * (1 + pr) + b * 12
      else if (if property_value s * (1 + g) > 0 then balance s / (property_value s * (1 + g)) else 0)
                > target_ltv \<and> int n < a then
        investment_value s * (1 + pr) + max 0 (b - balance s * r / 12 - m / 12) * 12
      else
        investment_value s * (1 + pr) + max 0 (b - balance s * r / 12) * 12)"
  by (simp add: hybrid_year_def Let_def)

text \<open>
  C1. The claim is that every year updates the investment account exactly once, to
  \<open>investment_value * (1 + blendedReturn) + 12 * monthlyInvestment\<close>. With a loan of
  zero (\<open>property_price = down_payment = 500000\<close>, budget 3500, return 9.6 percent) the
  first year starts from a balance of \<open>0\<close> and an account of \<open>0\<close>; one update would
  leave \<open>42000\<close>, and the code leaves \<open>88032 = 42000 * 1.096 + 42000\<close>: the branch
  \<^verbatim>\<open>balance == 0\<close> updates the account, and the statement after the branches updates
  it a second time.
\<close>

theorem hybrid_zero_balance_invests_twice:
  "balance (hybrid_run 500000 500000 3500 (15 / 1000) (2 / 100) (96 / 1000) 15 0) = 0
   \<and> investment_value (hybrid_run 500000 500000 3500 (15 / 1000) (2 / 100) (96 / 1000) 15 0) = 0
   \<and> investment_value (hybrid_run 500000 500000 3500 (15 / 1000) (2 / 100) (96 / 1000) 15 1) = 88032
   \<and> investment_value (hybrid_run 500000 500000 3500 (15 / 1000) (2 / 100) (96 / 1000) 15 1)
       \<noteq> investment_value (hybrid_run 500000 500000 3500 (15 / 1000) (2 / 100) (96 / 1000) 15 0)
            * (1 + 96 / 1000) + 12 * 3500"
  by (simp add: hybrid_run_0 hybrid_run_Suc hybrid_year_investment_value init_state_def)

section \<open>Paying the loan off with continued amortization\<close>

lemma real_estate_year_amortizing:
  assumes "balance s \<noteq> 0" and "c" and "int n < a"
  shows "amortization (real_estate_year pr b r g a c m n s) = min (balance s) (max m (b * 12 - balance s * r))"
  using assms by (simp add: real_estate_year_def Let_def)

lemma real_estate_year_payoff_mono:
  assumes "payoff_year s \<noteq> None"
  shows "payoff_year (real_estate_year pr b r g a c m n s) \<noteq> None"
  using assms by (simp add: real_estate_year_payoff)

lemma real_estate_run_payoff_mono:
  assumes "payoff_year (real_estate_run pr p d b r g a c n) \<noteq> None"
  shows "payoff_year (real_estate_run pr p d b r g a c (n + k)) \<noteq> None"
  using assms
  by (induction k) (simp_all add: real_estate_run_Suc real_estate_year_payoff_mono)

text \<open>A budget that does not pay the loan off within the horizon.\<close>

lemma slow_amortization_run:
  assumes "n \<le> 30"
  shows "500000 - 12000 * real n \<le> balance (real_estate_run (96 / 1000) 1000000 500000 1000 (15 / 1000) (2 / 100) 30 True n)
         \<and> balance (real_estate_run (96 / 1000) 1000000 500000 1000 (15 / 1000) (2 / 100) 30 True n) \<le> 500000
         \<and> payoff_year (real_estate_run (96 / 1000) 1000000 500000 1000 (15 / 1000) (2 / 100) 30 True n) = None"
  using assms
proof (induction n)
  case 0
  show ?case by (simp add: real_estate_run_0 init_state_def)
next
  case (Suc n)
  let ?s = "real_estate_run (96 / 1000) 1000000 500000 1000 (15 / 1000) (2 / 100) 30 True n"
  let ?m = "real_estate_min_amort_per_year 1000000 500000"
  let ?s' = "real_estate_year (96 / 1000) 1000 (15 / 1000) (2 / 100) 30 True ?m n ?s"
  from Suc have n: "n < 30" and lo: "500000 - 12000 * real n \<le> balance ?s"
    and hi: "balance ?s \<le> 500000" and py: "payoff_year ?s = None"
    by simp_all
  from n have "real n \<le> 29" by simp
  with lo have big: "152000 \<le> balance ?s" by linarith
  have m: "?m = 0" by (simp add: real_estate_min_amort_per_year_def)
  from big have nz: "balance ?s \<noteq> 0" by simp
  from n have na: "int n < 30" by simp
  have am: "amortization ?s' = min (balance ?s) (max ?m (1000 * 12 - balance ?s * (15 / 1000)))"
    using nz _ na by (rule real_estate_year_amortizing) simp
  have "min B (max 0 (1000 * 12 - B * (15 / 1000))) = 12000 - B * (15 / 1000)"
    if "152000 \<le> B" "B \<le> 500000" for B :: real
    using that by (simp add: min_def max_def)
  from this[OF big hi] am m have am': "amortization ?s' = 12000 - balance ?s * (15 / 1000)"
    by (simp only:)
  have bal: "balance ?s' = balance ?s - amortization ?s'"
    by (rule real_estate_year_balance)
  have sn: "real (Suc n) = real n + 1" by simp
  have arith: "500000 - 12000 * (x + 1) \<le> B' \<and> B' \<le> 500000"
    if "B' = B - am" "am = 12000 - B * (15 / 1000)" "500000 - 12000 * x \<le> B"
       "152000 \<le> B" "B \<le> 500000"
    for B B' am x :: real
    using that by (simp add: algebra_simps)
  from arith[OF bal am' lo big hi]
  have 1: "500000 - 12000 * real (Suc n) \<le> balance ?s'" and hi': "balance ?s' \<le> 500000"
    unfolding sn by blast+
  have "B' \<noteq> 0" if "500000 - 12000 * (x + 1) \<le> B'" "x \<le> 29" for B' x :: real
    using that by (simp add: algebra_simps)
  from this[OF 1[unfolded sn] \<open>real n \<le> 29\<close>] have "balance ?s' \<noteq> 0" .
  with py have 2: "payoff_year ?s' = None" by (simp add: real_estate_year_payoff)
  from 1 hi' 2 show ?case by (simp only: real_estate_run_Suc)
qed

text \<open>
  A loan of 500000 on a property of 1000000 at 1.5 percent, a budget of 1000 a month and
  an amortization window of 30 years: every year the budget of 12000 exceeds the interest
  (at most 7500) plus the minimum amortization (0), the balance falls by less than 12000
  a year, is still above 140000 after 30 years, and no payoff year is returned.
\<close>

theorem budget_above_minimum_no_payoff_counterexample:
  "budget_exceeds_minimum (96 / 1000) 1000000 500000 1000 (15 / 1000) (2 / 100) 30 True
   \<and> map_sum id snd (simulate_real_estate_strategy (96 / 1000) 1000000 500000 1000 (15 / 1000) (2 / 100) 30 True)
       = Inr None"
proof -
  have "\<forall>year \<in> set [0..<30].
          (1000::real) * 12 > balance (real_estate_run (96 / 1000) 1000000 500000 1000 (15 / 1000) (2 / 100) 30 True year) * (15 / 1000)
             + real_estate_min_amort_per_year 1000000 500000"
  proof
    fix year assume "year \<in> set [0..<30]"
    hence "year \<le> 30" by simp
    from slow_amortization_run[OF this]
    show "(1000::real) * 12 > balance (real_estate_run (96 / 1000) 1000000 500000 1000 (15 / 1000) (2 / 100) 30 True year) * (15 / 1000)
             + real_estate_min_amort_per_year 1000000 500000"
      by (simp add: real_estate_min_amort_per_year_def)
  qed
  hence 1: "budget_exceeds_minimum (96 / 1000) 1000000 500000 1000 (15 / 1000) (2 / 100) 30 True"
    unfolding budget_exceeds_minimum_def list_all_iff .
  have 2: "map_sum id snd (simulate_real_estate_strategy (96 / 1000) 1000000 500000 1000 (15 / 1000) (2 / 100) 30 True)
       = Inr None"
    using slow_amortization_run[of 30]
    by (simp add: simulate_real_estate_strategy_def Let_def)
  from 1 2 show ?thesis by blast
qed

lemma real_estate_window_invariant:
  assumes loan: "d < p" and r: "0 \<le> r"
    and a0: "0 < b * 12 - (p - d) * r"
    and n: "n \<le> min 30 (nat a)"
  shows "0 \<le> balance (real_estate_run pr p d b r g a True n)
       \<and> balance (real_estate_run pr p d b r g a True n) \<le> p - d
       \<and> (balance (real_estate_run pr p d b r g a True n) = 0
            \<longrightarrow> payoff_year (real_estate_run pr p d b r g a True n) \<noteq> None)
       \<and> (payoff_year (real_estate_run pr p d b r g a True n) \<noteq> None
            \<or> balance (real_estate_run pr p d b r g a True n)
                 \<le> p - d - real n * (b * 12 - (p - d) * r))"
  using n
proof (induction n)
  case 0
  from loan show ?case by (simp add: real_estate_run_0 init_state_def)
next
  case (Suc n)
  let ?s = "real_estate_run pr p d b r g a True n"
  let ?m = "real_estate_min_amort_per_year p d"
  let ?s' = "real_estate_year pr b r g a True ?m n ?s"
  define B where "B = balance ?s"
  define B' where "B' = balance ?s'"
  define am where "am = amortization ?s'"
  define L where "L = p - d"
  define A where "A = b * 12 - (p - d) * r"
  from Suc.prems have n: "n \<le> min 30 (nat a)" by simp
  from Suc.prems have "Suc n \<le> nat a" by simp
  hence na: "int n < a" by linarith
  from Suc.IH[OF n] have IH: "0 \<le> B" "B \<le> L" "B = 0 \<longrightarrow> payoff_year ?s \<noteq> None"
    "payoff_year ?s \<noteq> None \<or> B \<le> L - real n * A"
    unfolding B_def L_def A_def by blast+
  have bal: "B' = B - am"
    unfolding B'_def B_def am_def by (rule real_estate_year_balance)
  have py: "payoff_year ?s' = (if B \<noteq> 0 \<and> B' = 0 \<and> payoff_year ?s = None
                               then Some (Suc n) else payoff_year ?s)"
    unfolding B'_def B_def by (rule real_estate_year_payoff)
  have Apos: "0 < A" using a0 unfolding A_def .
  have goal: "0 \<le> B' \<and> B' \<le> L \<and> (B' = 0 \<longrightarrow> payoff_year ?s' \<noteq> None)
        \<and> (payoff_year ?s' \<noteq> None \<or> B' \<le> L - real (Suc n) * A)"
  proof (cases "B = 0")
    case True
    hence z: "balance ?s = 0" by (simp add: B_def)
    from real_estate_year_zero_balance[OF z] have "B' = 0" "payoff_year ?s' = payoff_year ?s"
      unfolding B'_def by simp_all
    with True IH loan show ?thesis by (simp add: L_def)
  next
    case False
    hence nz: "balance ?s \<noteq> 0" by (simp add: B_def)
    have "am = min B (max ?m (b * 12 - B * r))"
      unfolding am_def B_def using nz _ na by (rule real_estate_year_amortizing) simp
    moreover have "B * r \<le> L * r" using IH(2) r by (rule mult_right_mono)
    hence "A \<le> b * 12 - B * r" unfolding A_def L_def by simp
    ultimately have am: "am \<le> B" "0 < am" "am \<noteq> B \<longrightarrow> A \<le> am"
      using Apos False IH(1) by (auto simp add: min_def max_def)
    have sn: "real (Suc n) * A = real n * A + A" by (simp add: algebra_simps)
    from bal am IH(1,2) have 1: "0 \<le> B'" "B' \<le> L" by simp_all
    from py False have 2: "B' = 0 \<longrightarrow> payoff_year ?s' \<noteq> None" by auto
    have 3: "payoff_year ?s' \<noteq> None \<or> B' \<le> L - real (Suc n) * A"
    proof (cases "payoff_year ?s")
      case (Some y)
      with py show ?thesis by simp
    next
      case None
      with IH(4) have le: "B \<le> L - real n * A" by simp
      show ?thesis
      proof (cases "B' = 0")
        case True
        with 2 show ?thesis by simp
      next
        case False
        with bal have "am \<noteq> B" by simp
        with am(3) have "A \<le> am" by simp
        with bal le have "B' \<le> L - real (Suc n) * A" unfolding sn by simp
        thus ?thesis by simp
      qed
    qed
    from 1 2 3 show ?thesis by blast
  qed
  thus ?case
    unfolding B'_def L_def A_def real_estate_run_Suc .
qed

lemma real_estate_year_pays_off:
  assumes "m < b * 12 - balance s * r"
  shows "(balance s \<noteq> 0 \<and> balance (real_estate_year pr b r g a c m n s) = 0)
         \<longleftrightarrow> (balance s \<noteq> 0
              \<and> ((if property_value s * (1 + g) > 0 then balance s / (property_value s * (1 + g)) else 0)
                     > target_ltv
                   \<or> (c \<and> int n < a))
              \<and> balance s \<le> b * 12 - balance s * r)"
proof -
  from assms have mx: "max m (b * 12 - balance s * r) = b * 12 - balance s * r" by simp
  show ?thesis
    by (auto simp add: real_estate_year_def Let_def mx min_def)
qed

text \<open>
  C3, amended. For every input to the real-estate simulator with continued amortization
  such that in every year of the horizon the annual budget exceeds that year's interest
  plus the minimum annual amortization, a payoff year is returned if and only if, in some
  year of the horizon in which the loan is open and amortized (inside the amortization
  window, or with a loan-to-value above the target), the budget left after that year's
  interest is at least the balance; the payoff year is the first such year, counted from 1.
\<close>

theorem payoff_when_budget_covers_balance:
  assumes "property_price \<noteq> 0"
    and "budget_exceeds_minimum pr property_price down_payment b r g a True"
  shows "simulate_real_estate_strategy pr property_price down_payment b r g a True
           = Inr (net_worth (real_estate_run pr property_price down_payment b r g a True 30),
                  map_option Suc
                    (find (budget_covers_balance pr property_price down_payment b r g a True) [0..<30]))"
proof -
  let ?run = "real_estate_run pr property_price down_payment b r g a True"
  let ?m = "real_estate_min_amort_per_year property_price down_payment"
  let ?C = "budget_covers_balance pr property_price down_payment b r g a True"
  have inv: "payoff_year (?run n) = map_option Suc (find ?C [0..<n])" if "n \<le> 30" for n
    using that
  proof (induction n)
    case 0
    show ?case by (simp add: real_estate_run_0 init_state_def)
  next
    case (Suc n)
    define xs where "xs = [0..<n]"
    have split: "[0..<Suc n] = xs @ [n]" by (simp add: xs_def)
    from Suc have IH: "payoff_year (?run n) = map_option Suc (find ?C xs)" and n: "n < 30"
      by (simp_all add: xs_def)
    from n assms(2) have "b * 12 > balance (?run n) * r + ?m"
      by (simp add: budget_exceeds_minimum_def list_all_iff)
    hence "?m < b * 12 - balance (?run n) * r" by simp
    from real_estate_year_pays_off[OF this, of pr g a True n]
    have C: "(balance (?run n) \<noteq> 0 \<and> balance (?run (Suc n)) = 0) = ?C n"
      by (simp add: budget_covers_balance_def real_estate_run_Suc Let_def)
    have step: "payoff_year (?run (Suc n)) =
       (if ?C n \<and> payoff_year (?run n) = None then Some (Suc n) else payoff_year (?run n))"
      unfolding C[symmetric] by (simp add: real_estate_run_Suc real_estate_year_payoff)
    show ?case
      unfolding split find_snoc step IH
      by (cases "find ?C xs") simp_all
  qed
  from inv[of 30] assms(1) show ?thesis
    by (simp add: simulate_real_estate_strategy_def Let_def)
qed

text \<open>A loan of 100000 paid off in the third year.\<close>

lemma third_year_payoff_covers:
  "\<not> budget_covers_balance (96 / 1000) 1000000 900000 3500 (15 / 1000) (2 / 100) 30 True 0"
  "\<not> budget_covers_balance (96 / 1000) 1000000 900000 3500 (15 / 1000) (2 / 100) 30 True 1"
  "budget_covers_balance (96 / 1000) 1000000 900000 3500 (15 / 1000) (2 / 100) 30 True 2"
  by (simp_all add: budget_covers_balance_def eval_nat_numeral real_estate_run_0 real_estate_run_Suc
      real_estate_year_def init_state_def real_estate_min_amort_per_year_def Let_def target_ltv_def)

lemma third_year_payoff_find:
  "find (budget_covers_balance (96 / 1000) 1000000 900000 3500 (15 / 1000) (2 / 100) 30 True) [0..<30]
   = Some 2"
proof -
  have l: "[0..<30] = 0 # 1 # 2 # [3..<30]"
    by (simp add: upt_conv_Cons)
  show ?thesis
    unfolding l by (simp only: find.simps third_year_payoff_covers if_True if_False)
qed

theorem payoff_when_budget_covers_balance_witness:
  "(1000000::real) \<noteq> 0
   \<and> budget_exceeds_minimum (96 / 1000) 1000000 900000 3500 (15 / 1000) (2 / 100) 30 True
   \<and> map_sum id snd
        (simulate_real_estate_strategy (96 / 1000) 1000000 900000 3500 (15 / 1000) (2 / 100) 30 True)
       = Inr (Some 3)"
proof -
  have h: "(900000::real) < 1000000" "(0::real) \<le> 15 / 1000" by simp_all
  have A: "(0::real) < 3500 * 12 - (1000000 - 900000) * (15 / 1000)" by simp
  have "\<forall>year \<in> set [0..<30].
          (3500::real) * 12 > balance (real_estate_run (96 / 1000) 1000000 900000 3500 (15 / 1000) (2 / 100) 30 True year) * (15 / 1000)
             + real_estate_min_amort_per_year 1000000 900000"
  proof
    fix year assume "year \<in> set [0..<30]"
    hence "year \<le> min 30 (nat 30)" by simp
    from real_estate_window_invariant[OF h A this, of "96 / 1000" "2 / 100"]
    have "balance (real_estate_run (96 / 1000) 1000000 900000 3500 (15 / 1000) (2 / 100) 30 True year) \<le> 100000"
      by simp
    thus "(3500::real) * 12 > balance (real_estate_run (96 / 1000) 1000000 900000 3500 (15 / 1000) (2 / 100) 30 True year) * (15 / 1000)
             + real_estate_min_amort_per_year 1000000 900000"
      by (simp add: real_estate_min_amort_per_year_def)
  qed
  hence bem: "budget_exceeds_minimum (96 / 1000) 1000000 900000 3500 (15 / 1000) (2 / 100) 30 True"
    unfolding budget_exceeds_minimum_def list_all_iff .
  have nz: "(1000000::real) \<noteq> 0" by simp
  from payoff_when_budget_covers_balance[OF nz bem]
  have "simulate_real_estate_strategy (96 / 1000) 1000000 900000 3500 (15 / 1000) (2 / 100) 30 True
          = Inr (net_worth (real_estate_run (96 / 1000) 1000000 900000 3500 (15 / 1000) (2 / 100) 30 True 30),
                 Some 3)"
    unfolding third_year_payoff_find by simp
  hence "map_sum id snd
        (simulate_real_estate_strategy (96 / 1000) 1000000 900000 3500 (15 / 1000) (2 / 100) 30 True)
       = Inr (Some 3)"
    by (simp only: map_sum.simps snd_conv)
  with nz bem show ?thesis by blast
qed

section \<open>The payment calculator\<close>

text \<open>
  C5. For every input with a nonzero price (for a zero price the division raises), the
  payment calculator returns the interest \<open>loan * rate / 12\<close>; the sufficiency flag is
  true exactly when the budget covers the interest plus a twelfth of the minimum annual
  amortization of the regulatory rule; an insufficient budget amortizes
  \<open>max 0 (budget - interest)\<close> and invests nothing; a sufficient budget amortizes exactly
  the monthly minimum and invests the remainder when hybrid, and otherwise amortizes
  \<open>min (loan / 12) (max minimum (budget - interest))\<close> and invests nothing.
\<close>

theorem monthly_payments_breakdown:
  assumes "property_price \<noteq> 0"
  shows "\<exists>res. calculate_monthly_payments property_price down_payment monthly_budget
                  interest_rate amort_years is_hybrid = Inr res
          \<and> (let loan = property_price - down_payment;
                  monthlyInterest = loan * interest_rate / 12;
                  monthlyMinAmortization = spec_min_annual_amortization loan property_price / 12
              in Interest res = monthlyInterest
               \<and> Is_Sufficient res = (monthly_budget \<ge> monthlyInterest + monthlyMinAmortization)
               \<and> (monthly_budget < monthlyInterest + monthlyMinAmortization \<longrightarrow>
                     Amortization res = max 0 (monthly_budget - monthlyInterest) \<and> Investment res = 0)
               \<and> (monthly_budget \<ge> monthlyInterest + monthlyMinAmortization \<and> is_hybrid \<longrightarrow>
                     Amortization res = monthlyMinAmortization
                     \<and> Investment res = monthly_budget - monthlyInterest - monthlyMinAmortization)
               \<and> (monthly_budget \<ge> monthlyInterest + monthlyMinAmortization \<and> \<not> is_hybrid \<longrightarrow>
                     Amortization res = min (loan / 12)
                                            (max monthlyMinAmortization (monthly_budget - monthlyInterest))
                     \<and> Investment res = 0))"
proof -
  have m: "monthly_payments_min_amort_per_year property_price down_payment
           = spec_min_annual_amortization (property_price - down_payment) property_price"
    using assms
    by (simp add: monthly_payments_min_amort_per_year_def spec_min_annual_amortization_code Let_def)
  show ?thesis
    unfolding calculate_monthly_payments_def m Let_def
    using assms by (auto simp add: max_def)
qed

theorem monthly_payments_breakdown_witness:
  "(1000000::real) \<noteq> 0
   \<and> calculate_monthly_payments 1000000 200000 3500 (15 / 1000) 15 True
       = Inr \<lparr>Interest = 1000, Amortization = 133000 / 180, Investment = 2500 - 133000 / 180,
              Is_Sufficient = True\<rparr>
   \<and> calculate_monthly_payments 1000000 200000 3500 (15 / 1000) 15 False
       = Inr \<lparr>Interest = 1000, Amortization = 2500, Investment = 0, Is_Sufficient = True\<rparr>
   \<and> calculate_monthly_payments 1000000 200000 1500 (15 / 1000) 15 False
       = Inr \<lparr>Interest = 1000, Amortization = 500, Investment = 0, Is_Sufficient = False\<rparr>"
  using monthly_payments_breakdown[of 1000000 200000 3500 "15 / 1000" 15 True]
    monthly_payments_breakdown[of 1000000 200000 3500 "15 / 1000" 15 False]
    monthly_payments_breakdown[of 1000000 200000 1500 "15 / 1000" 15 False]
  by (auto simp add: spec_min_annual_amortization_def Let_def)

section \<open>The pure-investment series\<close>

lemma investment_fold:
  "fold (investment_month rent amt mr) [0..<n] (v0, [])
   = (((\<lambda>value. value * (1 + mr) + (amt - rent)) ^^ n) v0,
      map (\<lambda>k. ((\<lambda>value. value * (1 + mr) + (amt - rent)) ^^ (12 * (k + 1))) v0) [0..<n div 12])"
proof (induction n)
  case 0
  show ?case by simp
next
  case (Suc n)
  let ?step = "\<lambda>value. value * (1 + mr) + (amt - rent)"
  have unroll: "fold (investment_month rent amt mr) [0..<Suc n] (v0, [])
        = investment_month rent amt mr n (fold (investment_month rent amt mr) [0..<n] (v0, []))"
    by simp
  show ?case
  proof (cases "n mod 12 = 11")
    case True
    hence d: "Suc n div 12 = Suc (n div 12)"
      by (simp add: div_Suc mod_Suc)
    from True div_mult_mod_eq[of n 12] have e: "12 * (n div 12 + 1) = Suc n"
      by simp
    have "map (\<lambda>k. (?step ^^ (12 * (k + 1))) v0) [0..<Suc n div 12]
          = map (\<lambda>k. (?step ^^ (12 * (k + 1))) v0) [0..<n div 12] @ [(?step ^^ Suc n) v0]"
      unfolding d by (simp only: upt_Suc_append[OF le0] map_append list.map e)
    thus ?thesis
      unfolding unroll Suc.IH using True by (simp add: investment_month_def Let_def)
  next
    case False
    hence d: "Suc n div 12 = n div 12"
      by (simp add: div_Suc mod_Suc)
    show ?thesis
      unfolding unroll Suc.IH d using False by (simp add: investment_month_def Let_def)
  qed
qed

text \<open>
  C6. For every input (with \<open>annual_return \<ge> -1\<close>, where the monthly rate is real),
  the pure-investment simulator returns one value per year, and element \<open>k\<close> is the
  result of \<open>12 * (k + 1)\<close> applications of
  \<open>value \<mapsto> value * (1 + monthlyRate) + (monthlyBudget - monthlyRent)\<close> to the equity,
  with \<open>monthlyRate = (1 + annual_return) powr (1 / 12) - 1\<close>. The contribution is not
  clamped: the step is the same whatever the sign of \<open>monthlyBudget - monthlyRent\<close>.
\<close>

theorem investment_series:
  assumes "0 \<le> 1 + annual_return"
  shows "\<exists>progression.
           simulate_investment_strategy monthly_rent monthly_budget annual_return equity years
             = Inr progression
         \<and> length progression = nat years
         \<and> (\<forall>k < nat years.
               progression ! k
               = ((\<lambda>value. value * (1 + ((1 + annual_return) powr (1 / 12) - 1))
                               + (monthly_budget - monthly_rent)) ^^ (12 * (k + 1))) equity)"
proof -
  have "nat (years * 12) = nat years * 12"
    by (simp add: nat_mult_distrib)
  hence d: "nat (years * 12) div 12 = nat years" by simp
  show ?thesis
    using assms
    by (simp add: simulate_investment_strategy_def Let_def investment_fold d not_less)
qed

theorem investment_series_witness:
  "(0::real) \<le> 1 + 0
   \<and> (\<exists>progression. simulate_investment_strategy 2000 1000 0 200000 30 = Inr progression
         \<and> length progression = 30 \<and> progression ! 0 = 188000 \<and> progression ! 29 = - 160000)"
proof -
  have f: "((\<lambda>value::real. value - c) ^^ n) v = v - real n * c" for c v n
    by (induction n) (simp_all add: algebra_simps)
  from investment_series[of 0 2000 1000 200000 30] show ?thesis
    by (auto simp add: f)
qed

section \<open>The monthly loan-to-value loop\<close>

lemma ltv_run_0:
  "ltv_run g p d b r st 0 = ltv_init p d"
  by (simp add: ltv_run_def)

lemma ltv_run_Suc:
  "ltv_run g p d b r st (Suc n) =
   ltv_month ((1 + g) powr (1 / 12)) b r st (ltv_min_monthly_amort p d) n (ltv_run g p d b r st n)"
  by (simp add: ltv_run_def)

text \<open>What one month does to each component of the state.\<close>

lemma ltv_month_property_value:
  "ltv_property_value (ltv_month q b r st mm month s) = ltv_property_value s * q"
  by (simp add: ltv_month_def Let_def)

lemma ltv_month_ltv_progression:
  "ltv_progression (ltv_month q b r st mm month s)
   = ltv_progression s @ [current_ltv_of (ltv_balance s) (ltv_property_value s * q)]"
  by (simp add: ltv_month_def Let_def)

lemma ltv_month_amort_progression:
  "amort_progression (ltv_month q b r st mm month s)
   = amort_progression s
     @ [ltv_monthly_amort b r st mm (ltv_balance s)
          (current_ltv_of (ltv_balance s) (ltv_property_value s * q))]"
  by (simp add: ltv_month_def Let_def)

lemma ltv_month_balance:
  "ltv_balance (ltv_month q b r st mm month s)
   = max 0 (ltv_balance s - ltv_monthly_amort b r st mm (ltv_balance s)
          (current_ltv_of (ltv_balance s) (ltv_property_value s * q)))"
  by (simp add: ltv_month_def Let_def)

lemma ltv_month_balance_progression:
  "balance_progression (ltv_month q b r st mm month s)
   = balance_progression s @ [ltv_balance (ltv_month q b r st mm month s)]"
  by (simp add: ltv_month_def Let_def)

lemma ltv_month_years_to_target:
  "years_to_target (ltv_month q b r st mm month s)
   = (if current_ltv_of (ltv_balance s) (ltv_property_value s * q) \<le> target_ltv \<and> \<not> target_reached s
      then Some (month div 12 + 1) else years_to_target s)"
  "target_reached (ltv_month q b r st mm month s)
   = (current_ltv_of (ltv_balance s) (ltv_property_value s * q) \<le> target_ltv \<or> target_reached s)"
  by (auto simp add: ltv_month_def Let_def)

text \<open>The recorded sequences, month by month.\<close>

lemma ltv_run_ltv_progression:
  "ltv_progression (ltv_run g p d b r st n)
   = map (\<lambda>m. current_ltv_of (ltv_balance (ltv_run g p d b r st m))
                               (ltv_property_value (ltv_run g p d b r st (Suc m)))) [0..<n]"
  by (induction n)
     (simp_all add: ltv_run_0 ltv_init_def ltv_run_Suc ltv_month_ltv_progression ltv_month_property_value)

lemma ltv_run_amort_progression:
  "amort_progression (ltv_run g p d b r st n)
   = map (\<lambda>m. ltv_monthly_amort b r st (ltv_min_monthly_amort p d) (ltv_balance (ltv_run g p d b r st m))
                (current_ltv_of (ltv_balance (ltv_run g p d b r st m))
                                (ltv_property_value (ltv_run g p d b r st (Suc m))))) [0..<n]"
  by (induction n)
     (simp_all add: ltv_run_0 ltv_init_def ltv_run_Suc ltv_month_amort_progression ltv_month_property_value)

lemma ltv_run_balance_progression:
  "balance_progression (ltv_run g p d b r st n)
   = map (\<lambda>m. ltv_balance (ltv_run g p d b r st (Suc m))) [0..<n]"
  by (induction n)
     (simp_all add: ltv_run_0 ltv_init_def ltv_run_Suc ltv_month_balance_progression)

lemma ltv_run_years_to_target:
  "years_to_target (ltv_run g p d b r st n)
     = map_option (\<lambda>m. m div 12 + 1)
         (find (\<lambda>m. current_ltv_of (ltv_balance (ltv_run g p d b r st m))
                       (ltv_property_value (ltv_run g p d b r st (Suc m))) \<le> target_ltv) [0..<n])
   \<and> target_reached (ltv_run g p d b r st n) = (years_to_target (ltv_run g p d b r st n) \<noteq> None)"
proof (induction n)
  case 0
  show ?case by (simp add: ltv_run_0 ltv_init_def)
next
  case (Suc n)
  let ?run = "ltv_run g p d b r st"
  let ?P = "\<lambda>m. current_ltv_of (ltv_balance (?run m)) (ltv_property_value (?run (Suc m))) \<le> target_ltv"
  define xs where "xs = [0..<n]"
  have split: "[0..<Suc n] = xs @ [n]" by (simp add: xs_def)
  from Suc.IH have IH: "years_to_target (?run n) = map_option (\<lambda>m. m div 12 + 1) (find ?P xs)"
    "target_reached (?run n) = (years_to_target (?run n) \<noteq> None)"
    unfolding xs_def by blast+
  have pv: "ltv_property_value (?run (Suc n)) = ltv_property_value (?run n) * (1 + g) powr (1 / 12)"
    by (simp add: ltv_run_Suc ltv_month_property_value)
  have step: "years_to_target (?run (Suc n))
      = (if ?P n \<and> \<not> target_reached (?run n) then Some (n div 12 + 1) else years_to_target (?run n))"
    "target_reached (?run (Suc n)) = (?P n \<or> target_reached (?run n))"
    unfolding pv by (simp_all add: ltv_run_Suc ltv_month_years_to_target)
  show ?case
    unfolding split find_snoc step IH
    by (cases "find ?P xs") simp_all
qed

lemma ltv_run_lengths:
  "length (ltv_progression (ltv_run g p d b r st n)) = n"
  "length (balance_progression (ltv_run g p d b r st n)) = n"
  "length (amort_progression (ltv_run g p d b r st n)) = n"
  by (simp_all add: ltv_run_ltv_progression ltv_run_balance_progression ltv_run_amort_progression)

text \<open>
  C7. For every input (with \<open>real_estate_growth \<ge> -1\<close>; below, the monthly factor is
  complex and the comparison raises), the tracker returns 360 loan-to-value entries, and
  its years-to-target is absent if every entry exceeds 0.667, and otherwise is
  \<open>m div 12 + 1\<close> for the first month \<open>m\<close> (counted from 0) whose entry is at most 0.667.
  The entries are the \<^verbatim>\<open>current_ltv\<close> values the loop computes.
\<close>

theorem years_to_target_first_month:
  assumes "0 \<le> 1 + real_estate_growth"
  shows "\<exists>bal ltvs dbg.
           calculate_ltv_progression real_estate_growth property_price down_payment monthly_budget
               interest_rate strategy
             = Inr (map_option (\<lambda>m. m div 12 + 1) (find (\<lambda>m. ltvs ! m \<le> 0.667) [0..<360]),
                    bal, ltvs, dbg)
         \<and> ltvs = ltv_progression (ltv_run real_estate_growth property_price down_payment
                                      monthly_budget interest_rate strategy 360)
         \<and> length ltvs = 360"
proof -
  let ?run = "ltv_run real_estate_growth property_price down_payment monthly_budget interest_rate strategy"
  let ?L = "\<lambda>m. current_ltv_of (ltv_balance (?run m)) (ltv_property_value (?run (Suc m)))"
  have "find (\<lambda>m. ltv_progression (?run 360) ! m \<le> 0.667) [0..<360]
        = find (\<lambda>m. ?L m \<le> target_ltv) [0..<360]"
    by (rule find_cong) (simp_all add: ltv_run_ltv_progression target_ltv_def)
  with ltv_run_years_to_target[of real_estate_growth property_price down_payment monthly_budget
      interest_rate strategy 360]
  have "years_to_target (?run 360)
        = map_option (\<lambda>m. m div 12 + 1) (find (\<lambda>m. ltv_progression (?run 360) ! m \<le> 0.667) [0..<360])"
    by simp
  thus ?thesis
    using assms by (simp add: calculate_ltv_progression_def Let_def ltv_run_lengths not_less)
qed

text \<open>Two runs: one that reaches the target in month 13, one that never reaches it.\<close>

lemma reaching_run:
  assumes "n \<le> 13"
  shows "ltv_balance (ltv_run 0 1000000 320000 1000 0 ''pure_max'' n) = 680000 - 1000 * real n
         \<and> ltv_property_value (ltv_run 0 1000000 320000 1000 0 ''pure_max'' n) = 1000000"
  using assms
proof (induction n)
  case 0
  show ?case by (simp add: ltv_run_0 ltv_init_def)
next
  case (Suc n)
  hence IH: "ltv_balance (ltv_run 0 1000000 320000 1000 0 ''pure_max'' n) = 680000 - 1000 * real n"
    "ltv_property_value (ltv_run 0 1000000 320000 1000 0 ''pure_max'' n) = 1000000"
    and n: "real n \<le> 12" by simp_all
  from n show ?case
    by (simp add: ltv_run_Suc ltv_month_balance ltv_month_property_value IH current_ltv_of_def
        ltv_monthly_amort_def ltv_min_monthly_amort_def target_ltv_def Let_def)
qed

lemma reaching_run_property_value:
  "ltv_property_value (ltv_run 0 1000000 320000 1000 0 ''pure_max'' n) = 1000000"
  by (induction n) (simp_all add: ltv_run_0 ltv_init_def ltv_run_Suc ltv_month_property_value)

lemma reaching_run_first_month:
  "find (\<lambda>m. ltv_progression (ltv_run 0 1000000 320000 1000 0 ''pure_max'' 360) ! m \<le> 0.667) [0..<360]
   = Some 13"
proof -
  have L: "ltv_progression (ltv_run 0 1000000 320000 1000 0 ''pure_max'' 360) ! m
           = (680000 - 1000 * real m) / 1000000" if "m \<le> 13" for m
  proof -
    from that have "m < 360" by simp
    thus ?thesis
      using reaching_run[OF that]
      by (simp add: ltv_run_ltv_progression reaching_run_property_value current_ltv_of_def)
  qed
  have "\<not> ltv_progression (ltv_run 0 1000000 320000 1000 0 ''pure_max'' 360) ! j \<le> 0.667" if "j < 13" for j
  proof -
    from that have "real j \<le> 12" by simp
    moreover from that have "j \<le> 13" by simp
    ultimately show ?thesis by (simp add: L)
  qed
  moreover have "ltv_progression (ltv_run 0 1000000 320000 1000 0 ''pure_max'' 360) ! 13 \<le> 0.667"
    by (simp add: L)
  ultimately show ?thesis
    unfolding find_Some_iff by (intro exI[of _ 13]) simp
qed

theorem years_to_target_first_month_witness:
  "(0::real) \<le> 1 + 0
   \<and> (\<exists>bal ltvs dbg. calculate_ltv_progression 0 1000000 320000 1000 0 ''pure_max''
                          = Inr (Some 2, bal, ltvs, dbg) \<and> length ltvs = 360)"
proof -
  from years_to_target_first_month[of 0 1000000 320000 1000 0 "''pure_max''"]
  obtain bal ltvs dbg where
    c: "calculate_ltv_progression 0 1000000 320000 1000 0 ''pure_max''
          = Inr (map_option (\<lambda>m. m div 12 + 1) (find (\<lambda>m. ltvs ! m \<le> 0.667) [0..<360]), bal, ltvs, dbg)"
    and l: "ltvs = ltv_progression (ltv_run 0 1000000 320000 1000 0 ''pure_max'' 360)"
    and n: "length ltvs = 360"
    by auto
  from c n show ?thesis
    unfolding l reaching_run_first_month by simp
qed

lemma ltv_monthly_amort_pure_max:
  "ltv_monthly_amort b r ''pure_max'' mm bal ltv = min bal (max mm (b - bal * r / 12))"
  by (simp add: ltv_monthly_amort_def Let_def)

lemma ltv_run_balance_nonneg:
  "0 \<le> ltv_balance (ltv_run g p d b r st (Suc n))"
  by (simp add: ltv_run_Suc ltv_month_balance)

text \<open>
  C9. The tracker's minimum monthly amortization is
  \<open>(loan - 0.667 * property_price) / (15 * 12)\<close> with no floor, so it is negative for
  every input whose loan is below \<open>0.667 * property_price\<close>; the debug record returns it
  and the function returns the recorded balances. With the strategy \<^verbatim>\<open>pure_max\<close>, in any
  month whose interest (on the balance recorded for the month before, or on the loan in
  month 0) exceeds the monthly budget, the recorded amortization is
  \<open>min balance (max minimum (budget - interest))\<close>, which is negative, and the balance
  recorded for the month is above the balance recorded for the month before.
\<close>

theorem tracker_negative_amortization:
  assumes "property_price - down_payment < 0.667 * property_price"
  shows "ltv_min_monthly_amort property_price down_payment
           = (property_price - down_payment - 0.667 * property_price) / (15 * 12)
       \<and> ltv_min_monthly_amort property_price down_payment < 0
       \<and> (0 \<le> 1 + g \<longrightarrow>
            (\<exists>ytt ltvs dbg.
               calculate_ltv_progression g property_price down_payment monthly_budget interest_rate
                   ''pure_max''
                 = Inr (ytt,
                        balance_progression (ltv_run g property_price down_payment monthly_budget
                                               interest_rate ''pure_max'' 360),
                        ltvs, dbg)
               \<and> dbg_min_monthly_amort dbg = ltv_min_monthly_amort property_price down_payment))
       \<and> (monthly_budget < (property_price - down_payment) * interest_rate / 12 \<longrightarrow>
            amort_progression (ltv_run g property_price down_payment monthly_budget interest_rate
                                 ''pure_max'' 360) ! 0
              = min (property_price - down_payment)
                    (max (ltv_min_monthly_amort property_price down_payment)
                         (monthly_budget - (property_price - down_payment) * interest_rate / 12))
            \<and> amort_progression (ltv_run g property_price down_payment monthly_budget interest_rate
                                   ''pure_max'' 360) ! 0 < 0
            \<and> balance_progression (ltv_run g property_price down_payment monthly_budget interest_rate
                                     ''pure_max'' 360) ! 0
                > property_price - down_payment)
       \<and> (\<forall>m. Suc m < 360
                \<and> monthly_budget
                    < balance_progression (ltv_run g property_price down_payment monthly_budget
                                             interest_rate ''pure_max'' 360) ! m * interest_rate / 12
            \<longrightarrow>
              amort_progression (ltv_run g property_price down_payment monthly_budget interest_rate
                                   ''pure_max'' 360) ! Suc m
                = min (balance_progression (ltv_run g property_price down_payment monthly_budget
                                              interest_rate ''pure_max'' 360) ! m)
                      (max (ltv_min_monthly_amort property_price down_payment)
                           (monthly_budget
                            - balance_progression (ltv_run g property_price down_payment monthly_budget
                                                     interest_rate ''pure_max'' 360) ! m
                              * interest_rate / 12))
              \<and> amort_progression (ltv_run g property_price down_payment monthly_budget interest_rate
                                     ''pure_max'' 360) ! Suc m < 0
              \<and> balance_progression (ltv_run g property_price down_payment monthly_budget interest_rate
                                       ''pure_max'' 360) ! Suc m
                  = balance_progression (ltv_run g property_price down_payment monthly_budget
                                           interest_rate ''pure_max'' 360) ! m
                    - amort_progression (ltv_run g property_price down_payment monthly_budget
                                           interest_rate ''pure_max'' 360) ! Suc m
              \<and> balance_progression (ltv_run g property_price down_payment monthly_budget interest_rate
                                       ''pure_max'' 360) ! Suc m
                  > balance_progression (ltv_run g property_price down_payment monthly_budget
                                           interest_rate ''pure_max'' 360) ! m)"
proof -
  let ?run = "ltv_run g property_price down_payment monthly_budget interest_rate ''pure_max''"
  let ?mm = "ltv_min_monthly_amort property_price down_payment"
  let ?L = "property_price - down_payment"
  have 1: "?mm = (?L - 0.667 * property_price) / (15 * 12)"
    by (simp add: ltv_min_monthly_amort_def target_ltv_def Let_def)
  have 2: "?mm < 0"
    unfolding 1 using assms by simp
  have 3: "0 \<le> 1 + g \<longrightarrow>
            (\<exists>ytt ltvs dbg.
               calculate_ltv_progression g property_price down_payment monthly_budget interest_rate
                   ''pure_max''
                 = Inr (ytt, balance_progression (?run 360), ltvs, dbg)
               \<and> dbg_min_monthly_amort dbg = ?mm)"
    by (simp add: calculate_ltv_progression_def Let_def not_less)
  have step: "min B (max ?mm (monthly_budget - B * interest_rate / 12)) < 0
              \<and> B < max 0 (B - min B (max ?mm (monthly_budget - B * interest_rate / 12)))"
    if "monthly_budget < B * interest_rate / 12" for B
  proof -
    from that have "monthly_budget - B * interest_rate / 12 < 0" by simp
    with 2 have neg: "min B (max ?mm (monthly_budget - B * interest_rate / 12)) < 0"
      by (simp add: min_less_iff_disj)
    thus ?thesis by (simp add: less_max_iff_disj)
  qed
  have a0: "amort_progression (?run 360) ! 0
            = min ?L (max ?mm (monthly_budget - ?L * interest_rate / 12))"
    by (simp add: ltv_run_amort_progression ltv_monthly_amort_pure_max ltv_run_0 ltv_init_def)
  have b0: "balance_progression (?run 360) ! 0
            = max 0 (?L - min ?L (max ?mm (monthly_budget - ?L * interest_rate / 12)))"
    by (simp add: ltv_run_balance_progression ltv_run_Suc ltv_month_balance
        ltv_monthly_amort_pure_max ltv_run_0 ltv_init_def)
  have 4: "monthly_budget < ?L * interest_rate / 12 \<longrightarrow>
            amort_progression (?run 360) ! 0
              = min ?L (max ?mm (monthly_budget - ?L * interest_rate / 12))
            \<and> amort_progression (?run 360) ! 0 < 0
            \<and> balance_progression (?run 360) ! 0 > ?L"
    unfolding a0 b0 using step[of ?L] by simp
  have 5: "amort_progression (?run 360) ! Suc m
                = min (balance_progression (?run 360) ! m)
                      (max ?mm (monthly_budget - balance_progression (?run 360) ! m * interest_rate / 12))
              \<and> amort_progression (?run 360) ! Suc m < 0
              \<and> balance_progression (?run 360) ! Suc m
                  = balance_progression (?run 360) ! m - amort_progression (?run 360) ! Suc m
              \<and> balance_progression (?run 360) ! Suc m > balance_progression (?run 360) ! m"
    if m: "Suc m < 360"
      and lt: "monthly_budget < balance_progression (?run 360) ! m * interest_rate / 12" for m
  proof -
    define B where "B = balance_progression (?run 360) ! m"
    define am where "am = min B (max ?mm (monthly_budget - B * interest_rate / 12))"
    from m have B: "B = ltv_balance (?run (Suc m))"
      unfolding B_def by (simp add: ltv_run_balance_progression)
    hence Bnn: "0 \<le> B" by (simp add: ltv_run_balance_nonneg)
    from lt have "monthly_budget < B * interest_rate / 12" unfolding B_def .
    from step[OF this] have neg: "am < 0" and gt: "B < max 0 (B - am)"
      unfolding am_def by blast+
    have a: "amort_progression (?run 360) ! Suc m = am"
      using m unfolding am_def B
      by (simp add: ltv_run_amort_progression ltv_monthly_amort_pure_max)
    have "balance_progression (?run 360) ! Suc m = max 0 (B - am)"
      using m unfolding am_def B
      by (simp add: ltv_run_balance_progression ltv_run_Suc[of _ _ _ _ _ _ "Suc m"] ltv_month_balance
          ltv_monthly_amort_pure_max)
    moreover from neg Bnn have "max 0 (B - am) = B - am" by simp
    ultimately have b: "balance_progression (?run 360) ! Suc m = B - am" by simp
    from neg have "B < B - am" by simp
    with a b neg show ?thesis
      unfolding B_def[symmetric] am_def[symmetric] by simp
  qed
  from 1 2 3 4 5 show ?thesis by blast
qed

theorem tracker_negative_amortization_witness:
  "(1000000::real) - 500000 < 0.667 * 1000000
   \<and> (0::real) \<le> 1 + 0
   \<and> (1000::real) < (1000000 - 500000) * (6 / 100) / 12
   \<and> amort_progression (ltv_run 0 1000000 500000 1000 (6 / 100) ''pure_max'' 360) ! 0 = - (8350 / 9)
   \<and> balance_progression (ltv_run 0 1000000 500000 1000 (6 / 100) ''pure_max'' 360) ! 0
       = 500000 + 8350 / 9
   \<and> Suc 0 < 360
   \<and> (1000::real) < balance_progression (ltv_run 0 1000000 500000 1000 (6 / 100) ''pure_max'' 360) ! 0
                      * (6 / 100) / 12
   \<and> amort_progression (ltv_run 0 1000000 500000 1000 (6 / 100) ''pure_max'' 360) ! Suc 0 < 0
   \<and> balance_progression (ltv_run 0 1000000 500000 1000 (6 / 100) ''pure_max'' 360) ! Suc 0
       > balance_progression (ltv_run 0 1000000 500000 1000 (6 / 100) ''pure_max'' 360) ! 0
   \<and> (\<exists>ytt bal ltvs dbg.
         calculate_ltv_progression 0 1000000 500000 1000 (6 / 100) ''pure_max'' = Inr (ytt, bal, ltvs, dbg)
         \<and> bal ! 0 = 500000 + 8350 / 9 \<and> bal ! Suc 0 > bal ! 0
         \<and> dbg_min_monthly_amort dbg = - (8350 / 9))"
proof -
  have b0: "balance_progression (ltv_run 0 1000000 500000 1000 (6 / 100) ''pure_max'' 360) ! 0
            = 500000 + 8350 / 9"
    by (simp add: ltv_run_balance_progression ltv_run_Suc ltv_month_balance
        ltv_monthly_amort_pure_max ltv_run_0 ltv_init_def ltv_min_monthly_amort_def target_ltv_def Let_def)
  have lt: "(1000::real) < balance_progression (ltv_run 0 1000000 500000 1000 (6 / 100) ''pure_max'' 360) ! 0
                      * (6 / 100) / 12"
    unfolding b0 by simp
  from tracker_negative_amortization[of 1000000 500000 0 1000 "6 / 100"] lt b0
  show ?thesis
    by (auto simp add: ltv_min_monthly_amort_def target_ltv_def Let_def)
qed






end
